theory Spec2Isabelle
  imports Complex_Main "HOL-Library.AList"
begin

section \<open>The synchronization store (useProjectStore)\<close>

subsection \<open>Data\<close>

text \<open>
  A failed \<^verbatim>\<open>await\<close> throws a value. The store only asks whether that value is an
  \<^verbatim>\<open>Error\<close> (then it reads its message) or anything else.
\<close>

datatype thrown = Error string | NonError

text \<open>\<^verbatim>\<open>err instanceof Error ? err.message : 'Unknown error'\<close>\<close>

definition err_message :: "thrown \<Rightarrow> string" where
  "err_message err = (case err of Error m \<Rightarrow> m | NonError \<Rightarrow> ''Unknown error'')"

text \<open>
  The project as \<^verbatim>\<open>api.projects.getCurrent()\<close> returns it; only the fields the store
  reads. JavaScript numbers that are identifiers are integers here; an absent description
  is \<open>None\<close>.
\<close>

record Project =
  p_id :: int
  p_name :: string
  p_description :: "string option"
  p_created_at :: string

record Issues =
  issue_focus :: real
  issue_audio :: real
  issue_continuity :: real
  issue_narrative :: real

text \<open>
  The state of the store, field by field as in \<^verbatim>\<open>ProjectState\<close>. The types
  \<^verbatim>\<open>DashboardStats\<close> and the \<^verbatim>\<open>unknown\<close> timeline payload are declared outside the
  store, so they are type parameters. A \<^verbatim>\<open>Date\<close> is a number of milliseconds.
\<close>

record ('stats, 'tl) ProjectState =
  projectId :: "int option"
  projectName :: string
  description :: string
  shootDate :: string
  cameras :: "string list"
  totalFootage :: string
  processingProgress :: real
  aiConfidenceHealth :: real
  loading :: bool
  error :: "string option"
  issues :: Issues
  dashboardStats :: "'stats option"
  lastUpdated :: "nat option"
  timeline :: "'tl option"

definition initialState :: "('stats, 'tl) ProjectState" where
  "initialState =
     \<lparr> projectId = None, projectName = ''Loading...'', description = '''', shootDate = '''',
       cameras = [], totalFootage = ''0h 0m 0s'', processingProgress = 0,
       aiConfidenceHealth = 0, loading = False, error = None,
       issues = \<lparr> issue_focus = 0, issue_audio = 0, issue_continuity = 0, issue_narrative = 0 \<rparr>,
       dashboardStats = None, lastUpdated = None, timeline = None \<rparr>"

subsection \<open>Effects\<close>

text \<open>
  An action is a sequence of \<^verbatim>\<open>set\<close> calls around awaited network calls and timers.
  A run threads the store, the clock, and a history of what the action did, oldest entry
  first; each entry carries the store as it is right after the entry (for an awaited
  call or a timer: the store that is visible while the action is suspended).
\<close>

datatype api = GetCurrent | GetTimeline | GetStatus int | Upload | GetDashboardStats

datatype event = Set | Await api | Delay nat | ConsoleLog | ConsoleError

record ('stats, 'tl) run =
  store :: "('stats, 'tl) ProjectState"
  now :: nat
  history :: "(event \<times> ('stats, 'tl) ProjectState) list"

definition start :: "nat \<Rightarrow> ('stats, 'tl) ProjectState \<Rightarrow> ('stats, 'tl) run" where
  "start t s = \<lparr> store = s, now = t, history = [] \<rparr>"

definition record_event :: "event \<Rightarrow> ('stats, 'tl) run \<Rightarrow> ('stats, 'tl) run" where
  "record_event e r = r\<lparr> history := history r @ [(e, store r)] \<rparr>"

text \<open>\<^verbatim>\<open>set(patch)\<close>: the patch is a function on the store.\<close>

definition set_state ::
  "(('stats, 'tl) ProjectState \<Rightarrow> ('stats, 'tl) ProjectState) \<Rightarrow> ('stats, 'tl) run \<Rightarrow> ('stats, 'tl) run" where
  "set_state patch r = record_event Set (r\<lparr> store := patch (store r) \<rparr>)"

text \<open>
  The answer of the backend to one call: how long the call took and either the thrown
  value or the \<^verbatim>\<open>data\<close> of the response envelope.
\<close>

type_synonym 'a reply = "nat \<times> (thrown + 'a)"

definition await :: "api \<Rightarrow> 'a reply \<Rightarrow> ('stats, 'tl) run \<Rightarrow> ('stats, 'tl) run" where
  "await a reply r = record_event (Await a) (r\<lparr> now := now r + fst reply \<rparr>)"

text \<open>
  \<^verbatim>\<open>await new Promise(resolve => setTimeout(resolve, ms))\<close>. The entry records the
  delay that was asked for; the clock moves on by that delay.
\<close>

definition setTimeout :: "nat \<Rightarrow> ('stats, 'tl) run \<Rightarrow> ('stats, 'tl) run" where
  "setTimeout ms r = record_event (Delay ms) (r\<lparr> now := now r + ms \<rparr>)"

subsection \<open>Actions\<close>

text \<open>
  Every asynchronous action returns a promise. Its settlement is the first component of
  the result: \<open>Inr v\<close> when the promise fulfils with \<open>v\<close>, \<open>Inl err\<close> when it rejects
  with the thrown value \<open>err\<close>. The second component is the run after the action.
\<close>

type_synonym ('a, 'stats, 'tl) settled = "(thrown + 'a) \<times> ('stats, 'tl) run"

text \<open>
  \<^verbatim>\<open>project.description || ""\<close>: an absent and an empty description both give the empty
  string.
\<close>

definition description_or_empty :: "string option \<Rightarrow> string" where
  "description_or_empty d = (case d of None \<Rightarrow> '''' | Some x \<Rightarrow> x)"

text \<open>
  \<^verbatim>\<open>fetchProject\<close>. \<open>toLocaleDateString\<close> stands for
  \<^verbatim>\<open>new Date(created_at).toLocaleDateString()\<close>, which depends on the locale of the
  browser.
\<close>

definition fetchProject ::
  "(string \<Rightarrow> string) \<Rightarrow> Project reply \<Rightarrow> ('stats, 'tl) run \<Rightarrow> (unit, 'stats, 'tl) settled" where
  "fetchProject toLocaleDateString reply r0 =
     (let r1 = set_state (\<lambda>s. s\<lparr> loading := True, error := None \<rparr>) r0;
          r2 = await GetCurrent reply r1
      in case snd reply of
           Inr project \<Rightarrow>
             (Inr (),
              set_state (\<lambda>s. s\<lparr> projectId := Some (p_id project),
                                projectName := p_name project,
                                description := description_or_empty (p_description project),
                                shootDate := toLocaleDateString (p_created_at project),
                                loading := False \<rparr>) r2)
         | Inl err \<Rightarrow>
             (Inr (),
              set_state (\<lambda>s. s\<lparr> error := Some (err_message err), loading := False \<rparr>) r2))"

definition fetchTimeline :: "'tl reply \<Rightarrow> ('stats, 'tl) run \<Rightarrow> (unit, 'stats, 'tl) settled" where
  "fetchTimeline reply r0 =
     (let r1 = set_state (\<lambda>s. s\<lparr> loading := True, error := None \<rparr>) r0;
          r2 = await GetTimeline reply r1
      in case snd reply of
           Inr data \<Rightarrow>
             (Inr (), set_state (\<lambda>s. s\<lparr> timeline := Some data, loading := False \<rparr>) r2)
         | Inl err \<Rightarrow>
             (Inr (),
              set_state (\<lambda>s. s\<lparr> error := Some (err_message err), loading := False \<rparr>) r2))"

text \<open>
  \<^verbatim>\<open>getProcessingStatus\<close> fulfils with the payload, or with \<^verbatim>\<open>null\<close> (\<open>None\<close>) when the
  call fails. It never calls \<^verbatim>\<open>set\<close>.
\<close>

definition getProcessingStatus ::
  "int \<Rightarrow> 'status reply \<Rightarrow> ('stats, 'tl) run \<Rightarrow> ('status option, 'stats, 'tl) settled" where
  "getProcessingStatus takeId reply r0 =
     (let r1 = await (GetStatus takeId) reply r0
      in case snd reply of
           Inr data \<Rightarrow> (Inr (Some data), r1)
         | Inl err \<Rightarrow> (Inr None, record_event ConsoleError r1))"


text \<open>
  \<^verbatim>\<open>uploadMedia\<close> fulfils with the data of the response or rejects with the value that
  the call threw. The file is only handed to the backend, whose answer is the \<open>reply\<close>.
\<close>

definition uploadMedia :: "'res reply \<Rightarrow> ('stats, 'tl) run \<Rightarrow> ('res, 'stats, 'tl) settled" where
  "uploadMedia reply r0 =
     (let r1 = set_state (\<lambda>s. s\<lparr> loading := True, error := None \<rparr>) r0;
          r2 = await Upload reply r1
      in case snd reply of
           Inr data \<Rightarrow> (Inr data, set_state (\<lambda>s. s\<lparr> loading := False \<rparr>) r2)
         | Inl err \<Rightarrow>
             (Inl err,
              set_state (\<lambda>s. s\<lparr> error := Some (err_message err), loading := False \<rparr>) r2))"

text \<open>
  \<^verbatim>\<open>fetchDashboardStats(retries = 3)\<close>. The backend answers the \<open>i\<close>-th call of this
  invocation with \<open>backend i\<close>; the recursive call sees the remaining answers, and its
  promise is the one returned. The recursion ends because \<open>retries\<close> decreases while it
  is positive.
\<close>

definition exhausted_message :: string where
  "exhausted_message = ''Failed to fetch dashboard statistics. Please refresh the page.''"

function fetchDashboardStats ::
  "(nat \<Rightarrow> 'stats reply) \<Rightarrow> int \<Rightarrow> ('stats, 'tl) run \<Rightarrow> (unit, 'stats, 'tl) settled" where
  "fetchDashboardStats backend retries r0 =
     (let r1 = set_state (\<lambda>s. s\<lparr> loading := True, error := None \<rparr>) r0;
          r2 = await GetDashboardStats (backend 0) r1
      in case snd (backend 0) of
           Inr data \<Rightarrow>
             (Inr (),
              set_state (\<lambda>s. s\<lparr> dashboardStats := Some data,
                                lastUpdated := Some (now r2),
                                loading := False \<rparr>) r2)
         | Inl err \<Rightarrow>
             if retries > 0
             then fetchDashboardStats (\<lambda>i. backend (Suc i)) (retries - 1)
                    (setTimeout 2000 (record_event ConsoleLog r2))
             else (Inr (),
                   record_event ConsoleError
                     (set_state (\<lambda>s. s\<lparr> error := Some exhausted_message, loading := False \<rparr>) r2)))"
  by pat_completeness auto
termination
  by (relation "measure (\<lambda>(backend, retries, r). nat retries)") auto

text \<open>The default argument: \<^verbatim>\<open>fetchDashboardStats()\<close>.\<close>

definition fetchDashboardStats_default ::
  "(nat \<Rightarrow> 'stats reply) \<Rightarrow> ('stats, 'tl) run \<Rightarrow> (unit, 'stats, 'tl) settled" where
  "fetchDashboardStats_default backend r = fetchDashboardStats backend 3 r"

subsection \<open>Reading a run\<close>

text \<open>The store between the first \<^verbatim>\<open>set\<close> of a fetch and its resolution.\<close>

definition in_flight :: "('stats, 'tl) ProjectState \<Rightarrow> ('stats, 'tl) ProjectState" where
  "in_flight s = s\<lparr> loading := True, error := None \<rparr>"

text \<open>
  One failed attempt of \<^verbatim>\<open>fetchDashboardStats\<close> that is retried: the \<^verbatim>\<open>set\<close>, the call,
  the log line and the timer, all four with \<open>loading\<close> true and \<open>error\<close> null.
\<close>

definition retry_round ::
  "('stats, 'tl) ProjectState \<Rightarrow> (event \<times> ('stats, 'tl) ProjectState) list" where
  "retry_round s =
     [(Set, in_flight s), (Await GetDashboardStats, in_flight s),
      (ConsoleLog, in_flight s), (Delay 2000, in_flight s)]"

definition is_attempt :: "event \<times> ('stats, 'tl) ProjectState \<Rightarrow> bool" where
  "is_attempt x = (case fst x of Await a \<Rightarrow> True | _ \<Rightarrow> False)"

definition is_delay :: "event \<times> ('stats, 'tl) ProjectState \<Rightarrow> bool" where
  "is_delay x = (case fst x of Delay ms \<Rightarrow> True | _ \<Rightarrow> False)"

text \<open>What a run added to the history of the run it started from.\<close>

definition since ::
  "('stats, 'tl) run \<Rightarrow> ('stats, 'tl) run \<Rightarrow> (event \<times> ('stats, 'tl) ProjectState) list" where
  "since r0 r = drop (length (history r0)) (history r)"

text \<open>
  The sync state during a fetch and at its end. An entry is \<open>pending\<close> when the store
  shows a fetch under way and no error; it is \<open>resolved\<close> when the store no longer loads
  and the entry is the \<^verbatim>\<open>set\<close> that ends the action or the error line logged after it.
\<close>

definition pending :: "event \<times> ('stats, 'tl) ProjectState \<Rightarrow> bool" where
  "pending x = (loading (snd x) \<and> error (snd x) = None)"




text \<open>Entries that show \<open>loading\<close> and \<open>error\<close> as they are in the store \<open>s\<close>.\<close>

definition sync_untouched ::
  "('stats, 'tl) ProjectState \<Rightarrow> (event \<times> ('stats, 'tl) ProjectState) list \<Rightarrow> bool" where
  "sync_untouched s h = list_all (\<lambda>x. loading (snd x) = loading s \<and> error (snd x) = error s) h"

section \<open>The take views\<close>

subsection \<open>Data\<close>

text \<open>
  A take as \<^verbatim>\<open>api.media.listTakes()\<close> returns it. The two views declare the interface
  separately (\<^verbatim>\<open>ai_metadata\<close> is \<^verbatim>\<open>any\<close> in the gallery); this is the union of the
  fields, each with the type the views read it at: numbers are finite (JSON has no
  \<^verbatim>\<open>NaN\<close> and no infinity), identifiers are integers, an absent key is \<open>None\<close>.
\<close>

record BehavioralMarkers =
  hesitation_duration :: "real option"
  laughter_detected :: "bool option"

record CvFindings =
  cv_duration :: "real option"
  cv_objects :: "string list option"
  cv_reasoning :: "string option"
  video_description :: "string option"

record AudioFindings =
  transcript :: "string option"
  audio_reasoning :: "string option"
  quality_score :: "real option"
  audio_description :: "string option"
  audio_language :: "string option"
  audio_confidence :: "real option"
  audio_source :: "string option"
  behavioral_markers :: "BehavioralMarkers option"

record NlpFindings =
  aligned :: "bool option"
  similarity :: "real option"
  nlp_reasoning :: "string option"

record ScoreBreakdown =
  acting :: real
  timing :: real
  technical :: real
  script :: real

record Metadata =
  cv :: "CvFindings option"
  audio :: "AudioFindings option"
  nlp :: "NlpFindings option"
  score_breakdown :: "ScoreBreakdown option"
  emotion :: "string option"

record Take =
  take_id :: int
  file_name :: string
  take_number :: int
  take_duration :: "real option"
  ai_metadata :: "Metadata option"
  confidence_score :: "real option"

text \<open>The empty object \<^verbatim>\<open>{}\<close> at each of the three types it is read at.\<close>

definition empty_metadata :: Metadata where
  "empty_metadata = \<lparr> cv = None, audio = None, nlp = None, score_breakdown = None, emotion = None \<rparr>"

definition empty_audio :: AudioFindings where
  "empty_audio =
     \<lparr> transcript = None, audio_reasoning = None, quality_score = None, audio_description = None,
       audio_language = None, audio_confidence = None, audio_source = None,
       behavioral_markers = None \<rparr>"

definition empty_markers :: BehavioralMarkers where
  "empty_markers = \<lparr> hesitation_duration = None, laughter_detected = None \<rparr>"

text \<open>
  \<^verbatim>\<open>x || d\<close>: the left operand unless it is falsy. An absent field is falsy; an object
  never is; the number \<open>0\<close>, the boolean \<^verbatim>\<open>false\<close> and the empty string are.
\<close>

definition or_object :: "'a option \<Rightarrow> 'a \<Rightarrow> 'a" where
  "or_object x d = (case x of None \<Rightarrow> d | Some v \<Rightarrow> v)"

definition or_number :: "real option \<Rightarrow> real \<Rightarrow> real" where
  "or_number x d = (case x of None \<Rightarrow> d | Some v \<Rightarrow> if v = 0 then d else v)"

definition or_boolean :: "bool option \<Rightarrow> bool \<Rightarrow> bool" where
  "or_boolean x d = (case x of None \<Rightarrow> d | Some v \<Rightarrow> if v then v else d)"

definition or_string :: "string option \<Rightarrow> string \<Rightarrow> string" where
  "or_string x d = (case x of None \<Rightarrow> d | Some v \<Rightarrow> if v = '''' then d else v)"

subsection \<open>The categorizer (EmotionPerformance)\<close>

text \<open>
  \<^verbatim>\<open>CategorizedTakes\<close> is an object with five keys, created in this order; the order is
  the order of the sections on the page.
\<close>

type_synonym CategorizedTakes = "(string \<times> Take list) list"

definition empty_categories :: CategorizedTakes where
  "empty_categories =
     [(''Hesitation & Pauses'', []),
      (''Laughter & Humor'', []),
      (''Emotional Peaks'', []),
      (''Analytical & Technical'', []),
      (''Standard Dialogue'', [])]"

text \<open>\<^verbatim>\<open>categories[c].push(take)\<close>\<close>

definition push :: "string \<Rightarrow> Take \<Rightarrow> CategorizedTakes \<Rightarrow> CategorizedTakes" where
  "push c t categories = AList.map_entry c (\<lambda>items. items @ [t]) categories"

text \<open>The three values that the body of the loop reads from a take.\<close>

definition behaviors_of :: "Take \<Rightarrow> BehavioralMarkers" where
  "behaviors_of t =
     (let meta = or_object (ai_metadata t) empty_metadata;
          audio = or_object (Metadata.audio meta) empty_audio
      in or_object (behavioral_markers audio) empty_markers)"

definition pause_of :: "Take \<Rightarrow> real" where
  "pause_of t = or_number (hesitation_duration (behaviors_of t)) 0"

definition laughter_of :: "Take \<Rightarrow> bool" where
  "laughter_of t = or_boolean (laughter_detected (behaviors_of t)) False"

definition emotion_of :: "Take \<Rightarrow> string" where
  "emotion_of t =
     (let meta = or_object (ai_metadata t) empty_metadata
      in or_string (emotion meta) ''neutral'')"

text \<open>The body of \<^verbatim>\<open>takes.forEach\<close>: five statements, one after the other.\<close>

definition categorize_take :: "Take \<Rightarrow> CategorizedTakes \<Rightarrow> CategorizedTakes" where
  "categorize_take t c0 =
     (let pause = pause_of t;
          laughter = laughter_of t;
          emotion = emotion_of t;
          c1 = (if pause > 1.0 then push ''Hesitation & Pauses'' t c0 else c0);
          c2 = (if laughter then push ''Laughter & Humor'' t c1 else c1);
          c3 = (if emotion = ''analytical'' then push ''Analytical & Technical'' t c2 else c2);
          c4 = (if emotion \<noteq> ''neutral'' \<and> emotion \<noteq> ''unknown'' \<and> emotion \<noteq> ''analytical''
                then push ''Emotional Peaks'' t c3 else c3)
      in if \<not> laughter \<and> pause \<le> 1.0 \<and>
            (emotion = ''neutral'' \<or> emotion = ''unknown'' \<or> emotion = ''analytical'')
         then (if emotion \<noteq> ''analytical'' then push ''Standard Dialogue'' t c4 else c4)
         else c4)"

definition categorizedResults :: "Take list \<Rightarrow> CategorizedTakes" where
  "categorizedResults takes = fold categorize_take takes empty_categories"

text \<open>
  The categories as the specification words them, for a take whose pause is \<open>p\<close>, whose
  laughter flag is \<open>l\<close> and whose emotion is \<open>e\<close>.
\<close>

definition in_category :: "string \<Rightarrow> real \<Rightarrow> bool \<Rightarrow> string \<Rightarrow> bool" where
  "in_category c p l e =
     (if c = ''Hesitation & Pauses'' then p > 1.0
      else if c = ''Laughter & Humor'' then l
      else if c = ''Analytical & Technical'' then e = ''analytical''
      else if c = ''Emotional Peaks'' then e \<notin> {''neutral'', ''unknown'', ''analytical''}
      else if c = ''Standard Dialogue''
        then \<not> l \<and> p \<le> 1.0 \<and> e \<in> {''neutral'', ''unknown''}
      else False)"







subsection \<open>The categorizer on metadata of type \<^verbatim>\<open>any\<close>\<close>

text \<open>
  The gallery declares \<^verbatim>\<open>ai_metadata?: any\<close>, so nothing makes the three values that the
  loop reads a number, a boolean and a string. This is the take as the gallery declares
  it, with the values under the keys it reads left untyped: a number (finite, or an
  infinity when the literal overflows; \<^verbatim>\<open>NaN\<close> is there for the results of conversions),
  a string or a boolean. \<^verbatim>\<open>null\<close> reads as an absent key. An array or an object at one
  of the three keys is not modelled.
\<close>

datatype number = NaN | Finite real | PosInfinity | NegInfinity

datatype js_value = JNumber number | JString string | JBoolean bool

record GalleryMarkers =
  g_hesitation_duration :: "js_value option"
  g_laughter_detected :: "js_value option"

record GalleryAudio =
  g_behavioral_markers :: "GalleryMarkers option"

record GalleryMetadata =
  g_audio :: "GalleryAudio option"
  g_emotion :: "js_value option"

record GalleryTake =
  g_id :: int
  g_file_name :: string
  g_number :: int
  g_ai_metadata :: "GalleryMetadata option"
  g_confidence_score :: "real option"

text \<open>The values that \<^verbatim>\<open>||\<close>, \<^verbatim>\<open>if\<close> and \<^verbatim>\<open>!\<close> take as true.\<close>

definition truthy :: "js_value \<Rightarrow> bool" where
  "truthy v =
     (case v of
        JNumber n \<Rightarrow> n \<noteq> NaN \<and> n \<noteq> Finite 0
      | JString s \<Rightarrow> s \<noteq> ''''
      | JBoolean b \<Rightarrow> b)"

text \<open>\<^verbatim>\<open>x || d\<close> on a value that may be absent.\<close>

definition or_value :: "js_value option \<Rightarrow> js_value \<Rightarrow> js_value" where
  "or_value x d = (case x of None \<Rightarrow> d | Some v \<Rightarrow> if truthy v then v else d)"

text \<open>
  A comparison with a number converts the other operand to a number first. The
  conversion of a string is the built-in one, a parameter here.
\<close>

definition to_number :: "(string \<Rightarrow> number) \<Rightarrow> js_value \<Rightarrow> number" where
  "to_number toNumber v =
     (case v of
        JNumber n \<Rightarrow> n
      | JString s \<Rightarrow> toNumber s
      | JBoolean b \<Rightarrow> Finite (if b then 1 else 0))"

text \<open>\<^verbatim>\<open>x > c\<close> and \<^verbatim>\<open>x <= c\<close> for a finite \<open>c\<close>: both are false of \<^verbatim>\<open>NaN\<close>.\<close>

definition greater_than :: "number \<Rightarrow> real \<Rightarrow> bool" where
  "greater_than x c =
     (case x of NaN \<Rightarrow> False | Finite v \<Rightarrow> v > c | PosInfinity \<Rightarrow> True | NegInfinity \<Rightarrow> False)"

definition at_most :: "number \<Rightarrow> real \<Rightarrow> bool" where
  "at_most x c =
     (case x of NaN \<Rightarrow> False | Finite v \<Rightarrow> v \<le> c | PosInfinity \<Rightarrow> False | NegInfinity \<Rightarrow> True)"

definition empty_gallery_metadata :: GalleryMetadata where
  "empty_gallery_metadata = \<lparr> g_audio = None, g_emotion = None \<rparr>"

definition empty_gallery_audio :: GalleryAudio where
  "empty_gallery_audio = \<lparr> g_behavioral_markers = None \<rparr>"

definition empty_gallery_markers :: GalleryMarkers where
  "empty_gallery_markers = \<lparr> g_hesitation_duration = None, g_laughter_detected = None \<rparr>"

type_synonym GalleryCategories = "(string \<times> GalleryTake list) list"

definition empty_gallery_categories :: GalleryCategories where
  "empty_gallery_categories =
     [(''Hesitation & Pauses'', []),
      (''Laughter & Humor'', []),
      (''Emotional Peaks'', []),
      (''Analytical & Technical'', []),
      (''Standard Dialogue'', [])]"

definition push_any :: "string \<Rightarrow> GalleryTake \<Rightarrow> GalleryCategories \<Rightarrow> GalleryCategories" where
  "push_any c t categories = AList.map_entry c (\<lambda>items. items @ [t]) categories"

definition behaviors_any :: "GalleryTake \<Rightarrow> GalleryMarkers" where
  "behaviors_any t =
     (let meta = or_object (g_ai_metadata t) empty_gallery_metadata;
          audio = or_object (g_audio meta) empty_gallery_audio
      in or_object (g_behavioral_markers audio) empty_gallery_markers)"

definition pause_any :: "GalleryTake \<Rightarrow> js_value" where
  "pause_any t = or_value (g_hesitation_duration (behaviors_any t)) (JNumber (Finite 0))"

definition laughter_any :: "GalleryTake \<Rightarrow> js_value" where
  "laughter_any t = or_value (g_laughter_detected (behaviors_any t)) (JBoolean False)"

definition emotion_any :: "GalleryTake \<Rightarrow> js_value" where
  "emotion_any t =
     (let meta = or_object (g_ai_metadata t) empty_gallery_metadata
      in or_value (g_emotion meta) (JString ''neutral''))"

text \<open>The body of \<^verbatim>\<open>takes.forEach\<close> once more, on these values.\<close>

definition categorize_any ::
  "(string \<Rightarrow> number) \<Rightarrow> GalleryTake \<Rightarrow> GalleryCategories \<Rightarrow> GalleryCategories" where
  "categorize_any toNumber t c0 =
     (let pause = pause_any t;
          laughter = laughter_any t;
          emotion = emotion_any t;
          c1 = (if greater_than (to_number toNumber pause) 1.0
                then push_any ''Hesitation & Pauses'' t c0 else c0);
          c2 = (if truthy laughter then push_any ''Laughter & Humor'' t c1 else c1);
          c3 = (if emotion = JString ''analytical''
                then push_any ''Analytical & Technical'' t c2 else c2);
          c4 = (if emotion \<noteq> JString ''neutral'' \<and> emotion \<noteq> JString ''unknown'' \<and>
                   emotion \<noteq> JString ''analytical''
                then push_any ''Emotional Peaks'' t c3 else c3)
      in if \<not> truthy laughter \<and> at_most (to_number toNumber pause) 1.0 \<and>
            (emotion = JString ''neutral'' \<or> emotion = JString ''unknown'' \<or>
             emotion = JString ''analytical'')
         then (if emotion \<noteq> JString ''analytical''
               then push_any ''Standard Dialogue'' t c4 else c4)
         else c4)"

definition categorizedResults_any :: "(string \<Rightarrow> number) \<Rightarrow> GalleryTake list \<Rightarrow> GalleryCategories" where
  "categorizedResults_any toNumber ts = fold (categorize_any toNumber) ts empty_gallery_categories"

text \<open>
  The five conditions of the specification, read on these values: the pause as the
  number it converts to, the laughter flag as true or not, the emotion as it is.
\<close>

definition pause_number :: "(string \<Rightarrow> number) \<Rightarrow> GalleryTake \<Rightarrow> number" where
  "pause_number toNumber t = to_number toNumber (pause_any t)"

definition hesitates :: "(string \<Rightarrow> number) \<Rightarrow> GalleryTake \<Rightarrow> bool" where
  "hesitates toNumber t = greater_than (pause_number toNumber t) 1.0"

definition laughs :: "GalleryTake \<Rightarrow> bool" where
  "laughs t = truthy (laughter_any t)"

definition analytical :: "GalleryTake \<Rightarrow> bool" where
  "analytical t = (emotion_any t = JString ''analytical'')"

definition emotional_peak :: "GalleryTake \<Rightarrow> bool" where
  "emotional_peak t =
     (emotion_any t \<notin> {JString ''neutral'', JString ''unknown'', JString ''analytical''})"

definition standard_dialogue :: "(string \<Rightarrow> number) \<Rightarrow> GalleryTake \<Rightarrow> bool" where
  "standard_dialogue toNumber t =
     (\<not> truthy (laughter_any t) \<and> at_most (pause_number toNumber t) 1.0 \<and>
      emotion_any t \<in> {JString ''neutral'', JString ''unknown''})"

text \<open>The condition of a category, by the name of the category.\<close>

definition gallery_condition :: "(string \<Rightarrow> number) \<Rightarrow> string \<Rightarrow> GalleryTake \<Rightarrow> bool" where
  "gallery_condition toNumber c t =
     (if c = ''Hesitation & Pauses'' then hesitates toNumber t
      else if c = ''Laughter & Humor'' then laughs t
      else if c = ''Analytical & Technical'' then analytical t
      else if c = ''Emotional Peaks'' then emotional_peak t
      else if c = ''Standard Dialogue'' then standard_dialogue toNumber t
      else False)"

text \<open>A take with the types of the data model, as the gallery receives it.\<close>

definition gallery_markers_of :: "BehavioralMarkers \<Rightarrow> GalleryMarkers" where
  "gallery_markers_of b =
     \<lparr> g_hesitation_duration = map_option (\<lambda>v. JNumber (Finite v)) (hesitation_duration b),
       g_laughter_detected = map_option JBoolean (laughter_detected b) \<rparr>"

definition gallery_audio_of :: "AudioFindings \<Rightarrow> GalleryAudio" where
  "gallery_audio_of a =
     \<lparr> g_behavioral_markers = map_option gallery_markers_of (behavioral_markers a) \<rparr>"

definition gallery_metadata_of :: "Metadata \<Rightarrow> GalleryMetadata" where
  "gallery_metadata_of m =
     \<lparr> g_audio = map_option gallery_audio_of (Metadata.audio m),
       g_emotion = map_option JString (emotion m) \<rparr>"

definition gallery_of :: "Take \<Rightarrow> GalleryTake" where
  "gallery_of t =
     \<lparr> g_id = take_id t, g_file_name = file_name t, g_number = take_number t,
       g_ai_metadata = map_option gallery_metadata_of (ai_metadata t),
       g_confidence_score = confidence_score t \<rparr>"

text \<open>
  A conversion for the examples: it reads no string as a number. The only string that
  the examples convert is \<^verbatim>\<open>"n/a"\<close>, which the built-in conversion reads as \<^verbatim>\<open>NaN\<close>.
\<close>

definition not_a_numeral :: "string \<Rightarrow> number" where
  "not_a_numeral s = NaN"

subsection \<open>The refresh of the take library (AIMonitor)\<close>



text \<open>The two pieces of component state that the refresh writes.\<close>

record MonitorState =
  takes :: "Take list"
  selectedTake :: "Take option"





section \<open>Properties of the store\<close>

subsection \<open>Shared lemmas\<close>

lemmas run_defs = set_state_def await_def setTimeout_def record_event_def

declare fetchDashboardStats.simps [simp del]

lemma fetchProject_ok:
  "fetchProject f (d, Inr p) r =
     (Inr (),
      r\<lparr> store := (store r)\<lparr> projectId := Some (p_id p), projectName := p_name p,
                            description := description_or_empty (p_description p),
                            shootDate := f (p_created_at p), loading := False, error := None \<rparr>,
         now := now r + d,
         history := history r @
           [(Set, in_flight (store r)), (Await GetCurrent, in_flight (store r)),
            (Set, (store r)\<lparr> projectId := Some (p_id p), projectName := p_name p,
                              description := description_or_empty (p_description p),
                              shootDate := f (p_created_at p), loading := False,
                              error := None \<rparr>)] \<rparr>)"
  by (simp add: fetchProject_def run_defs in_flight_def)

lemma fetchProject_failed:
  "fetchProject f (d, Inl e) r =
     (Inr (),
      r\<lparr> store := (store r)\<lparr> error := Some (err_message e), loading := False \<rparr>,
         now := now r + d,
         history := history r @
           [(Set, in_flight (store r)), (Await GetCurrent, in_flight (store r)),
            (Set, (store r)\<lparr> error := Some (err_message e), loading := False \<rparr>)] \<rparr>)"
  by (simp add: fetchProject_def run_defs in_flight_def)

lemma fetchTimeline_ok:
  "fetchTimeline (d, Inr x) r =
     (Inr (),
      r\<lparr> store := (store r)\<lparr> timeline := Some x, loading := False, error := None \<rparr>,
         now := now r + d,
         history := history r @
           [(Set, in_flight (store r)), (Await GetTimeline, in_flight (store r)),
            (Set, (store r)\<lparr> timeline := Some x, loading := False, error := None \<rparr>)] \<rparr>)"
  by (simp add: fetchTimeline_def run_defs in_flight_def)

lemma fetchTimeline_failed:
  "fetchTimeline (d, Inl e) r =
     (Inr (),
      r\<lparr> store := (store r)\<lparr> error := Some (err_message e), loading := False \<rparr>,
         now := now r + d,
         history := history r @
           [(Set, in_flight (store r)), (Await GetTimeline, in_flight (store r)),
            (Set, (store r)\<lparr> error := Some (err_message e), loading := False \<rparr>)] \<rparr>)"
  by (simp add: fetchTimeline_def run_defs in_flight_def)

lemma uploadMedia_ok:
  "uploadMedia (d, Inr x) r =
     (Inr x,
      r\<lparr> store := (store r)\<lparr> loading := False, error := None \<rparr>,
         now := now r + d,
         history := history r @
           [(Set, in_flight (store r)), (Await Upload, in_flight (store r)),
            (Set, (store r)\<lparr> loading := False, error := None \<rparr>)] \<rparr>)"
  by (simp add: uploadMedia_def run_defs in_flight_def)

lemma uploadMedia_failed:
  "uploadMedia (d, Inl e) r =
     (Inl e,
      r\<lparr> store := (store r)\<lparr> error := Some (err_message e), loading := False \<rparr>,
         now := now r + d,
         history := history r @
           [(Set, in_flight (store r)), (Await Upload, in_flight (store r)),
            (Set, (store r)\<lparr> error := Some (err_message e), loading := False \<rparr>)] \<rparr>)"
  by (simp add: uploadMedia_def run_defs in_flight_def)

lemma getProcessingStatus_ok:
  "getProcessingStatus takeId (d, Inr x) r =
     (Inr (Some x),
      r\<lparr> now := now r + d, history := history r @ [(Await (GetStatus takeId), store r)] \<rparr>)"
  by (simp add: getProcessingStatus_def run_defs)

lemma getProcessingStatus_failed:
  "getProcessingStatus takeId (d, Inl e) r =
     (Inr None,
      r\<lparr> now := now r + d,
         history := history r @ [(Await (GetStatus takeId), store r), (ConsoleError, store r)] \<rparr>)"
  by (simp add: getProcessingStatus_def run_defs)

lemma fetchDashboardStats_nonpos:
  "retries \<le> 0 \<Longrightarrow> fetchDashboardStats backend retries r = fetchDashboardStats backend 0 r"
  by (subst fetchDashboardStats.simps, subst (2) fetchDashboardStats.simps)
    (simp add: Let_def split: sum.splits)

lemma fetchDashboardStats_nat:
  "fetchDashboardStats backend retries r = fetchDashboardStats backend (int (nat retries)) r"
proof (cases "retries \<le> 0")
  case True
  then show ?thesis using fetchDashboardStats_nonpos [of retries backend r] by simp
next
  case False
  then show ?thesis by simp
qed

lemma fetchDashboardStats_exhausted:
  "(\<And>i. i \<le> N \<Longrightarrow> isl (snd (backend i))) \<Longrightarrow>
   fetchDashboardStats backend (int N) r =
     (Inr (),
      r\<lparr> store := (store r)\<lparr> loading := False, error := Some exhausted_message \<rparr>,
         now := now r + (\<Sum>i\<le>N. fst (backend i)) + 2000 * N,
         history := history r @ concat (replicate N (retry_round (store r))) @
           [(Set, in_flight (store r)), (Await GetDashboardStats, in_flight (store r)),
            (Set, (store r)\<lparr> loading := False, error := Some exhausted_message \<rparr>),
            (ConsoleError, (store r)\<lparr> loading := False, error := Some exhausted_message \<rparr>)] \<rparr>)"
proof (induction N arbitrary: r backend)
  case 0
  then have "isl (snd (backend 0))" by simp
  then obtain e where "snd (backend 0) = Inl e" by (cases "snd (backend 0)") auto
  then show ?case
    by (subst fetchDashboardStats.simps) (simp add: run_defs in_flight_def)
next
  case (Suc N)
  have "isl (snd (backend 0))" using Suc.prems by blast
  then obtain e where e: "snd (backend 0) = Inl e" by (cases "snd (backend 0)") auto
  have rest: "\<And>i. i \<le> N \<Longrightarrow> isl (snd (backend (Suc i)))" using Suc.prems by simp
  have shift: "(\<Sum>i\<le>Suc N. fst (backend i)) = fst (backend 0) + (\<Sum>i\<le>N. fst (backend (Suc i)))"
    by (rule sum.atMost_Suc_shift)
  show ?case
    apply (subst fetchDashboardStats.simps)
    apply (simp add: Let_def e del: sum.atMost_Suc)
    apply (subst Suc.IH [of "\<lambda>i. backend (Suc i)", OF rest])
     apply assumption
    apply (simp add: run_defs shift in_flight_def retry_round_def del: sum.atMost_Suc)
    done
qed

lemma fetchDashboardStats_succeeds:
  "k \<le> N \<Longrightarrow> (\<And>i. i < k \<Longrightarrow> isl (snd (backend i))) \<Longrightarrow> snd (backend k) = Inr data \<Longrightarrow>
   fetchDashboardStats backend (int N) r =
     (Inr (),
      r\<lparr> store := (store r)\<lparr> loading := False, error := None, dashboardStats := Some data,
                            lastUpdated := Some (now r + (\<Sum>i\<le>k. fst (backend i)) + 2000 * k) \<rparr>,
         now := now r + (\<Sum>i\<le>k. fst (backend i)) + 2000 * k,
         history := history r @ concat (replicate k (retry_round (store r))) @
           [(Set, in_flight (store r)), (Await GetDashboardStats, in_flight (store r)),
            (Set, (store r)\<lparr> loading := False, error := None, dashboardStats := Some data,
                    lastUpdated := Some (now r + (\<Sum>i\<le>k. fst (backend i)) + 2000 * k) \<rparr>)] \<rparr>)"
proof (induction k arbitrary: N r backend)
  case 0
  then show ?case
    by (subst fetchDashboardStats.simps) (simp add: run_defs in_flight_def)
next
  case (Suc k)
  have "isl (snd (backend 0))" using Suc.prems by blast
  then obtain e where e: "snd (backend 0) = Inl e" by (cases "snd (backend 0)") auto
  obtain M where N: "N = Suc M" and kM: "k \<le> M" using Suc.prems(1) by (cases N) auto
  have rest: "\<And>i. i < k \<Longrightarrow> isl (snd (backend (Suc i)))" using Suc.prems by simp
  have shift: "(\<Sum>i\<le>Suc k. fst (backend i)) = fst (backend 0) + (\<Sum>i\<le>k. fst (backend (Suc i)))"
    by (rule sum.atMost_Suc_shift)
  show ?case
    apply (subst fetchDashboardStats.simps)
    apply (simp add: Let_def e N del: sum.atMost_Suc)
    apply (subst Suc.IH [of M "\<lambda>i. backend (Suc i)", OF kM rest])
      apply assumption
     apply (rule Suc.prems(3))
    apply (simp add: run_defs shift in_flight_def retry_round_def del: sum.atMost_Suc)
    done
qed

text \<open>Every invocation either finds a first attempt that succeeds or fails them all.\<close>

lemma first_success_or_none:
  fixes backend :: "nat \<Rightarrow> 'a reply"
  obtains (exhausted) "\<And>i. i \<le> N \<Longrightarrow> isl (snd (backend i))"
  | (succeeds) k data where "k \<le> N" "\<And>i. i < k \<Longrightarrow> isl (snd (backend i))" "snd (backend k) = Inr data"
proof (cases "\<exists>i\<le>N. \<not> isl (snd (backend i))")
  case False
  then show ?thesis using exhausted by blast
next
  case True
  define k where "k = (LEAST i. \<not> isl (snd (backend i)))"
  from True obtain j where j: "j \<le> N" "\<not> isl (snd (backend j))" by blast
  have k: "\<not> isl (snd (backend k))" unfolding k_def using j(2) by (rule LeastI)
  have "k \<le> j" unfolding k_def using j(2) by (rule Least_le)
  then have kN: "k \<le> N" using j(1) by simp
  have before: "\<And>i. i < k \<Longrightarrow> isl (snd (backend i))"
    unfolding k_def using not_less_Least by blast
  obtain data where "snd (backend k) = Inr data" using k by (cases "snd (backend k)") auto
  then show ?thesis using succeeds kN before by blast
qed

lemma fetchDashboardStats_exhausted_int:
  assumes "\<And>i. i \<le> nat retries \<Longrightarrow> isl (snd (backend i))"
  shows "fetchDashboardStats backend retries r =
     (Inr (),
      r\<lparr> store := (store r)\<lparr> loading := False, error := Some exhausted_message \<rparr>,
         now := now r + (\<Sum>i\<le>nat retries. fst (backend i)) + 2000 * nat retries,
         history := history r @ concat (replicate (nat retries) (retry_round (store r))) @
           [(Set, in_flight (store r)), (Await GetDashboardStats, in_flight (store r)),
            (Set, (store r)\<lparr> loading := False, error := Some exhausted_message \<rparr>),
            (ConsoleError, (store r)\<lparr> loading := False, error := Some exhausted_message \<rparr>)] \<rparr>)"
  by (rule trans [OF fetchDashboardStats_nat
        fetchDashboardStats_exhausted [of "nat retries" backend, OF assms]])

lemma fetchDashboardStats_succeeds_int:
  assumes "k \<le> nat retries" "\<And>i. i < k \<Longrightarrow> isl (snd (backend i))" "snd (backend k) = Inr data"
  shows "fetchDashboardStats backend retries r =
     (Inr (),
      r\<lparr> store := (store r)\<lparr> loading := False, error := None, dashboardStats := Some data,
                            lastUpdated := Some (now r + (\<Sum>i\<le>k. fst (backend i)) + 2000 * k) \<rparr>,
         now := now r + (\<Sum>i\<le>k. fst (backend i)) + 2000 * k,
         history := history r @ concat (replicate k (retry_round (store r))) @
           [(Set, in_flight (store r)), (Await GetDashboardStats, in_flight (store r)),
            (Set, (store r)\<lparr> loading := False, error := None, dashboardStats := Some data,
                    lastUpdated := Some (now r + (\<Sum>i\<le>k. fst (backend i)) + 2000 * k) \<rparr>)] \<rparr>)"
  by (rule trans [OF fetchDashboardStats_nat
        fetchDashboardStats_succeeds [of k "nat retries" backend data, OF assms]])

lemma fetchDashboardStats_fulfils: "fst (fetchDashboardStats backend retries r) = Inr ()"
proof (rule first_success_or_none [of "nat retries" backend])
  assume "\<And>i. i \<le> nat retries \<Longrightarrow> isl (snd (backend i))"
  then show ?thesis by (simp add: fetchDashboardStats_exhausted_int)
next
  fix k data
  assume "k \<le> nat retries" "\<And>i. i < k \<Longrightarrow> isl (snd (backend i))" "snd (backend k) = Inr data"
  then show ?thesis by (simp add: fetchDashboardStats_succeeds_int)
qed

lemma list_all_retry_rounds:
  "list_all P (retry_round s) \<Longrightarrow> list_all P (concat (replicate k (retry_round s)))"
  by (induction k) simp_all

lemma filter_attempt_rounds:
  "filter is_attempt (concat (replicate k (retry_round s))) =
     replicate k (Await GetDashboardStats, in_flight s)"
  by (induction k) (simp_all add: retry_round_def is_attempt_def)

lemma filter_delay_rounds:
  "filter is_delay (concat (replicate k (retry_round s))) = replicate k (Delay 2000, in_flight s)"
  by (induction k) (simp_all add: retry_round_def is_delay_def)


lemma pending_retry_rounds: "list_all pending (concat (replicate k (retry_round s)))"
  by (rule list_all_retry_rounds) (simp add: retry_round_def pending_def in_flight_def)



subsection \<open>The retry policy\<close>

text \<open>
  C1. With \<open>retries = N\<close> and a backend whose stats fetch always fails,
  \<^verbatim>\<open>fetchDashboardStats\<close> makes exactly \<open>N + 1\<close> attempts and waits \<open>N\<close> times, 2000 units
  each, once before each retry. \<open>loading\<close> is true (and \<open>error\<close> null) during every wait
  and in every entry up to the last attempt; only after the last failed attempt is
  \<open>error\<close> set to the fixed message and \<open>loading\<close> to false.
\<close>

theorem fetchDashboardStats_always_failing:
  assumes "\<forall>i. isl (snd (backend i))"
    and "r' = snd (fetchDashboardStats backend (int N) r)"
  shows "since r r' =
           concat (replicate N (retry_round (store r))) @
           [(Set, in_flight (store r)), (Await GetDashboardStats, in_flight (store r)),
            (Set, (store r)\<lparr> loading := False, error := Some exhausted_message \<rparr>),
            (ConsoleError, (store r)\<lparr> loading := False, error := Some exhausted_message \<rparr>)] \<and>
         length (filter is_attempt (since r r')) = N + 1 \<and>
         filter is_delay (since r r') = replicate N (Delay 2000, in_flight (store r)) \<and>
         loading (in_flight (store r)) \<and>
         list_all pending (butlast (butlast (since r r'))) \<and>
         store r' = (store r)\<lparr> loading := False, error := Some exhausted_message \<rparr> \<and>
         exhausted_message = ''Failed to fetch dashboard statistics. Please refresh the page.'' \<and>
         now r' = now r + (\<Sum>i\<le>N. fst (backend i)) + 2000 * N"
proof -
  have run: "fetchDashboardStats backend (int N) r =
     (Inr (),
      r\<lparr> store := (store r)\<lparr> loading := False, error := Some exhausted_message \<rparr>,
         now := now r + (\<Sum>i\<le>N. fst (backend i)) + 2000 * N,
         history := history r @ concat (replicate N (retry_round (store r))) @
           [(Set, in_flight (store r)), (Await GetDashboardStats, in_flight (store r)),
            (Set, (store r)\<lparr> loading := False, error := Some exhausted_message \<rparr>),
            (ConsoleError, (store r)\<lparr> loading := False, error := Some exhausted_message \<rparr>)] \<rparr>)"
    by (rule fetchDashboardStats_exhausted) (simp add: assms(1))
  have new: "since r r' =
           concat (replicate N (retry_round (store r))) @
           [(Set, in_flight (store r)), (Await GetDashboardStats, in_flight (store r)),
            (Set, (store r)\<lparr> loading := False, error := Some exhausted_message \<rparr>),
            (ConsoleError, (store r)\<lparr> loading := False, error := Some exhausted_message \<rparr>)]"
    unfolding assms(2) run by (simp add: since_def)
  have attempts: "length (filter is_attempt (since r r')) = N + 1"
    unfolding new by (simp add: filter_attempt_rounds) (simp add: is_attempt_def)
  have delays: "filter is_delay (since r r') = replicate N (Delay 2000, in_flight (store r))"
    unfolding new by (simp add: filter_delay_rounds) (simp add: is_delay_def)
  have "butlast (butlast (since r r')) =
          concat (replicate N (retry_round (store r))) @
          [(Set, in_flight (store r)), (Await GetDashboardStats, in_flight (store r))]"
    unfolding new by (simp add: butlast_append)
  then have before: "list_all pending (butlast (butlast (since r r')))"
    by (simp add: pending_retry_rounds) (simp add: pending_def in_flight_def)
  have final: "store r' = (store r)\<lparr> loading := False, error := Some exhausted_message \<rparr>"
    and clock: "now r' = now r + (\<Sum>i\<le>N. fst (backend i)) + 2000 * N"
    unfolding assms(2) run by simp_all
  have loads: "loading (in_flight (store r))" by (simp add: in_flight_def)
  have msg: "exhausted_message = ''Failed to fetch dashboard statistics. Please refresh the page.''"
    by (simp add: exhausted_message_def)
  show ?thesis using new attempts delays loads before final msg clock by blast
qed

theorem fetchDashboardStats_always_failing_witness:
  "(\<forall>i. isl (snd ((\<lambda>i. (5, Inl (Error ''down''))) i :: nat reply))) \<and>
   length (filter is_attempt
     (since (start 0 initialState)
        (snd (fetchDashboardStats (\<lambda>i. (5, Inl (Error ''down''))) 2
               (start 0 (initialState :: (nat, nat) ProjectState)))))) = 3 \<and>
   filter is_delay
     (since (start 0 initialState)
        (snd (fetchDashboardStats (\<lambda>i. (5, Inl (Error ''down''))) 2
               (start 0 (initialState :: (nat, nat) ProjectState))))) =
     [(Delay 2000, in_flight initialState), (Delay 2000, in_flight initialState)] \<and>
   error (store (snd (fetchDashboardStats (\<lambda>i. (5, Inl (Error ''down''))) 2
               (start 0 (initialState :: (nat, nat) ProjectState))))) =
     Some ''Failed to fetch dashboard statistics. Please refresh the page.'' \<and>
   now (snd (fetchDashboardStats (\<lambda>i. (5, Inl (Error ''down''))) 2
               (start 0 (initialState :: (nat, nat) ProjectState)))) = 4015"
proof -
  let ?b = "\<lambda>i::nat. (5, Inl (Error ''down'')) :: nat reply"
  let ?r0 = "start 0 (initialState :: (nat, nat) ProjectState)"
  let ?r' = "snd (fetchDashboardStats ?b (int 2) ?r0)"
  have h: "\<forall>i. isl (snd (?b i))" by simp
  note w = fetchDashboardStats_always_failing [of ?b ?r' 2 ?r0, OF h refl]
  have attempts: "length (filter is_attempt (since ?r0 ?r')) = 2 + 1"
    using w by blast
  have delays: "filter is_delay (since ?r0 ?r') = replicate 2 (Delay 2000, in_flight (store ?r0))"
    using w by blast
  have final: "store ?r' = (store ?r0)\<lparr> loading := False, error := Some exhausted_message \<rparr>"
    using w by blast
  have msg: "exhausted_message = ''Failed to fetch dashboard statistics. Please refresh the page.''"
    using w by blast
  have clock: "now ?r' = now ?r0 + (\<Sum>i\<le>2. fst (?b i)) + 2000 * 2"
    using w by blast
  have 1: "length (filter is_attempt (since ?r0 (snd (fetchDashboardStats ?b 2 ?r0)))) = 3"
    using attempts by simp
  have 2: "filter is_delay (since ?r0 (snd (fetchDashboardStats ?b 2 ?r0))) =
      [(Delay 2000, in_flight initialState), (Delay 2000, in_flight initialState)]"
    using delays by (simp add: start_def numeral_2_eq_2)
  have 3: "error (store (snd (fetchDashboardStats ?b 2 ?r0))) =
      Some ''Failed to fetch dashboard statistics. Please refresh the page.''"
    using final msg by simp
  have 4: "now (snd (fetchDashboardStats ?b 2 ?r0)) = 4015"
    using clock by (simp add: start_def)
  show ?thesis using h 1 2 3 4 by blast
qed

text \<open>
  C2. With \<open>retries = 3\<close> and a backend that fails the first two attempts and succeeds
  on the third, \<^verbatim>\<open>fetchDashboardStats\<close> makes exactly three attempts and ends with the
  fetched snapshot stored, \<open>lastUpdated\<close> set to the time of the end of the run, \<open>loading\<close>
  false and \<open>error\<close> null.
\<close>

theorem fetchDashboardStats_third_attempt_succeeds:
  assumes "snd (backend 0) = Inl e0" and "snd (backend 1) = Inl e1"
    and "snd (backend 2) = Inr data"
    and "r' = snd (fetchDashboardStats backend 3 r)"
  shows "length (filter is_attempt (since r r')) = 3 \<and>
         dashboardStats (store r') = Some data \<and>
         lastUpdated (store r') = Some (now r') \<and>
         \<not> loading (store r') \<and>
         error (store r') = None \<and>
         store r' = (store r)\<lparr> loading := False, error := None, dashboardStats := Some data,
                               lastUpdated := Some (now r') \<rparr> \<and>
         now r' = now r + fst (backend 0) + 2000 + fst (backend 1) + 2000 + fst (backend 2) \<and>
         fst (fetchDashboardStats backend 3 r) = Inr ()"
proof -
  have failing: "\<And>i. i < 2 \<Longrightarrow> isl (snd (backend i))"
    using assms(1,2) less_2_cases by fastforce
  have total: "(\<Sum>i\<le>2. fst (backend i)) = fst (backend 0) + fst (backend 1) + fst (backend 2)"
    by (simp add: numeral_2_eq_2)
  have run: "fetchDashboardStats backend 3 r =
     (Inr (),
      r\<lparr> store := (store r)\<lparr> loading := False, error := None, dashboardStats := Some data,
                            lastUpdated := Some (now r + (\<Sum>i\<le>2. fst (backend i)) + 2000 * 2) \<rparr>,
         now := now r + (\<Sum>i\<le>2. fst (backend i)) + 2000 * 2,
         history := history r @ concat (replicate 2 (retry_round (store r))) @
           [(Set, in_flight (store r)), (Await GetDashboardStats, in_flight (store r)),
            (Set, (store r)\<lparr> loading := False, error := None, dashboardStats := Some data,
                    lastUpdated := Some (now r + (\<Sum>i\<le>2. fst (backend i)) + 2000 * 2) \<rparr>)] \<rparr>)"
    by (rule fetchDashboardStats_succeeds_int [of 2 3 backend data r, OF _ failing assms(3)]) simp_all
  have new: "since r r' = concat (replicate 2 (retry_round (store r))) @
           [(Set, in_flight (store r)), (Await GetDashboardStats, in_flight (store r)),
            (Set, (store r)\<lparr> loading := False, error := None, dashboardStats := Some data,
                    lastUpdated := Some (now r + (\<Sum>i\<le>2. fst (backend i)) + 2000 * 2) \<rparr>)]"
    unfolding assms(4) run by (simp add: since_def)
  have attempts: "length (filter is_attempt (since r r')) = 3"
    unfolding new by (simp add: filter_attempt_rounds) (simp add: is_attempt_def)
  show ?thesis
    using attempts unfolding assms(4) run total by simp
qed

theorem fetchDashboardStats_third_attempt_succeeds_witness:
  "dashboardStats (store (snd (fetchDashboardStats
      (\<lambda>i. if i < 2 then (10, Inl NonError) else (30, Inr (42 :: nat))) 3
      (start 100 (initialState :: (nat, nat) ProjectState))))) = Some 42 \<and>
   lastUpdated (store (snd (fetchDashboardStats
      (\<lambda>i. if i < 2 then (10, Inl NonError) else (30, Inr (42 :: nat))) 3
      (start 100 (initialState :: (nat, nat) ProjectState))))) = Some 4150 \<and>
   length (filter is_attempt (since (start 100 initialState) (snd (fetchDashboardStats
      (\<lambda>i. if i < 2 then (10, Inl NonError) else (30, Inr (42 :: nat))) 3
      (start 100 (initialState :: (nat, nat) ProjectState)))))) = 3"
  using fetchDashboardStats_third_attempt_succeeds
    [of "\<lambda>i. if i < 2 then (10, Inl NonError) else (30, Inr (42 :: nat))" NonError NonError 42
        "snd (fetchDashboardStats
          (\<lambda>i. if i < 2 then (10, Inl NonError) else (30, Inr (42 :: nat))) 3
          (start 100 (initialState :: (nat, nat) ProjectState)))"
        "start 100 initialState"]
  by (simp add: start_def)

lemma fetchProject_fulfils: "fst (fetchProject f reply r) = Inr ()"
  by (simp add: fetchProject_def Let_def split: sum.splits)

lemma fetchTimeline_fulfils: "fst (fetchTimeline reply r) = Inr ()"
  by (simp add: fetchTimeline_def Let_def split: sum.splits)

lemma getProcessingStatus_fulfils: "\<not> isl (fst (getProcessingStatus takeId reply r))"
  by (simp add: getProcessingStatus_def Let_def split: sum.splits)

subsection \<open>Results and failures of the actions\<close>

text \<open>
  C7. \<^verbatim>\<open>uploadMedia\<close> sets \<open>loading\<close> true and \<open>error\<close> null before the call. On success it
  fulfils with the data of the created resource and sets \<open>loading\<close> false. On failure it
  sets \<open>error\<close> to the message of the failure, or to the generic fallback when the thrown
  value is not an \<^verbatim>\<open>Error\<close>, sets \<open>loading\<close> false and rejects with the same thrown value.
  No other action of the store rejects.
\<close>

theorem uploadMedia_contract:
  "uploadMedia (d, Inr data) r =
     (Inr data,
      r\<lparr> store := (store r)\<lparr> loading := False, error := None \<rparr>,
         now := now r + d,
         history := history r @
           [(Set, (store r)\<lparr> loading := True, error := None \<rparr>),
            (Await Upload, (store r)\<lparr> loading := True, error := None \<rparr>),
            (Set, (store r)\<lparr> loading := False, error := None \<rparr>)] \<rparr>) \<and>
   uploadMedia (d, Inl err) r =
     (Inl err,
      r\<lparr> store := (store r)\<lparr> loading := False, error := Some (err_message err) \<rparr>,
         now := now r + d,
         history := history r @
           [(Set, (store r)\<lparr> loading := True, error := None \<rparr>),
            (Await Upload, (store r)\<lparr> loading := True, error := None \<rparr>),
            (Set, (store r)\<lparr> loading := False, error := Some (err_message err) \<rparr>)] \<rparr>) \<and>
   err_message (Error m) = m \<and>
   err_message NonError = ''Unknown error'' \<and>
   fst (fetchProject f reply1 r1) = Inr () \<and>
   fst (fetchTimeline reply2 r2) = Inr () \<and>
   \<not> isl (fst (getProcessingStatus takeId reply3 r3)) \<and>
   fst (fetchDashboardStats backend retries r4) = Inr ()"
  by (simp add: uploadMedia_ok uploadMedia_failed in_flight_def err_message_def
      fetchProject_fulfils fetchTimeline_fulfils getProcessingStatus_fulfils
      fetchDashboardStats_fulfils)

theorem uploadMedia_contract_witness:
  "fst (uploadMedia (7, Inl (Error ''too large'') :: thrown + string)
          (start 0 (initialState :: (nat, nat) ProjectState))) = Inl (Error ''too large'') \<and>
   store (snd (uploadMedia (7, Inl (Error ''too large'') :: thrown + string)
          (start 0 (initialState :: (nat, nat) ProjectState)))) =
     initialState\<lparr> error := Some ''too large'' \<rparr> \<and>
   fst (uploadMedia (7, Inr ''take-12'') (start 0 (initialState :: (nat, nat) ProjectState))) =
     Inr ''take-12''"
proof -
  let ?r0 = "start 0 (initialState :: (nat, nat) ProjectState)"
  note w = uploadMedia_contract [of 7 "''take-12''" ?r0 "Error ''too large''" "''too large''"
      id "(0, Inl NonError)" ?r0 "(0, Inl NonError) :: nat reply" ?r0 1
      "(0, Inl NonError) :: nat reply" ?r0 "\<lambda>i. (0, Inl NonError)" 0 ?r0]
  note ok = w [THEN conjunct1]
  note failed = w [THEN conjunct2, THEN conjunct1]
  note msg = w [THEN conjunct2, THEN conjunct2, THEN conjunct1]
  show ?thesis unfolding ok failed msg by (simp add: start_def initialState_def)
qed

text \<open>
  C8. For every take identifier, \<^verbatim>\<open>getProcessingStatus\<close> fulfils with the status payload
  when the call succeeds and with \<^verbatim>\<open>null\<close> when it fails; in the failure case the store
  is the same before, during and after the call, so \<open>loading\<close> and \<open>error\<close> are not
  modified.
\<close>

theorem getProcessingStatus_contract:
  "getProcessingStatus takeId (d, Inr data) r =
     (Inr (Some data),
      r\<lparr> now := now r + d, history := history r @ [(Await (GetStatus takeId), store r)] \<rparr>) \<and>
   getProcessingStatus takeId (d, Inl err) r =
     (Inr None,
      r\<lparr> now := now r + d,
         history := history r @ [(Await (GetStatus takeId), store r), (ConsoleError, store r)] \<rparr>) \<and>
   loading (store (snd (getProcessingStatus takeId (d, Inl err) r))) = loading (store r) \<and>
   error (store (snd (getProcessingStatus takeId (d, Inl err) r))) = error (store r) \<and>
   sync_untouched (store r) (since r (snd (getProcessingStatus takeId (d, Inl err) r)))"
  by (simp add: getProcessingStatus_ok getProcessingStatus_failed since_def sync_untouched_def)

theorem getProcessingStatus_contract_witness:
  "fst (getProcessingStatus 7 (3, Inl NonError :: thrown + string)
     (start 0 ((initialState :: (nat, nat) ProjectState)\<lparr> loading := True \<rparr>))) = Inr None \<and>
   store (snd (getProcessingStatus 7 (3, Inl NonError :: thrown + string)
     (start 0 ((initialState :: (nat, nat) ProjectState)\<lparr> loading := True \<rparr>)))) =
     initialState\<lparr> loading := True \<rparr> \<and>
   fst (getProcessingStatus 7 (3, Inr ''processing'')
     (start 0 (initialState :: (nat, nat) ProjectState))) = Inr (Some ''processing'')"
proof -
  let ?r0 = "start 0 (initialState :: (nat, nat) ProjectState)"
  let ?r1 = "start 0 ((initialState :: (nat, nat) ProjectState)\<lparr> loading := True \<rparr>)"
  have ok: "getProcessingStatus 7 (3, Inr ''processing'') ?r0 =
     (Inr (Some ''processing''),
      ?r0\<lparr> now := now ?r0 + 3, history := history ?r0 @ [(Await (GetStatus 7), store ?r0)] \<rparr>)"
    using getProcessingStatus_contract [of 7 3 "''processing''" ?r0 NonError] by blast
  have failed: "getProcessingStatus 7 (3, Inl NonError :: thrown + string) ?r1 =
     (Inr None,
      ?r1\<lparr> now := now ?r1 + 3,
         history := history ?r1 @ [(Await (GetStatus 7), store ?r1), (ConsoleError, store ?r1)] \<rparr>)"
    using getProcessingStatus_contract [of 7 3 "''processing''" ?r1 NonError] by blast
  show ?thesis unfolding ok failed by (simp add: start_def)
qed

text \<open>
  C5. After \<^verbatim>\<open>fetchProject\<close>, \<^verbatim>\<open>fetchTimeline\<close>, \<^verbatim>\<open>uploadMedia\<close> or
  \<^verbatim>\<open>fetchDashboardStats\<close> has run to its end: if the fetch succeeded, \<open>loading\<close> is false
  and \<open>error\<close> is null; if it failed for good, \<open>loading\<close> is false and \<open>error\<close> is not
  null. For \<^verbatim>\<open>fetchDashboardStats\<close> success means that some attempt among the first
  \<open>retries + 1\<close> succeeds, and failure that all of them fail.
  \<^verbatim>\<open>getProcessingStatus\<close> leaves \<open>error\<close> as it was in both cases.
\<close>

theorem fetch_actions_resolve:
  "(\<not> loading (store (snd (fetchProject f (d, Inr p) r))) \<and>
    error (store (snd (fetchProject f (d, Inr p) r))) = None) \<and>
   (\<not> loading (store (snd (fetchProject f (d, Inl e) r))) \<and>
    error (store (snd (fetchProject f (d, Inl e) r))) \<noteq> None) \<and>
   (\<not> loading (store (snd (fetchTimeline (d, Inr x) r))) \<and>
    error (store (snd (fetchTimeline (d, Inr x) r))) = None) \<and>
   (\<not> loading (store (snd (fetchTimeline (d, Inl e) r))) \<and>
    error (store (snd (fetchTimeline (d, Inl e) r))) \<noteq> None) \<and>
   (\<not> loading (store (snd (uploadMedia (d, Inr y) r))) \<and>
    error (store (snd (uploadMedia (d, Inr y) r))) = None) \<and>
   (\<not> loading (store (snd (uploadMedia (d, Inl e) r))) \<and>
    error (store (snd (uploadMedia (d, Inl e) r))) \<noteq> None) \<and>
   (k \<le> nat retries \<and> (\<forall>i<k. isl (snd (backend i))) \<and> snd (backend k) = Inr data \<longrightarrow>
      \<not> loading (store (snd (fetchDashboardStats backend retries r))) \<and>
      error (store (snd (fetchDashboardStats backend retries r))) = None) \<and>
   ((\<forall>i\<le>nat retries. isl (snd (backend i))) \<longrightarrow>
      \<not> loading (store (snd (fetchDashboardStats backend retries r))) \<and>
      error (store (snd (fetchDashboardStats backend retries r))) \<noteq> None) \<and>
   error (store (snd (getProcessingStatus takeId (d, Inr z) r))) = error (store r) \<and>
   error (store (snd (getProcessingStatus takeId (d, Inl e) r))) = error (store r)"
proof -
  have single:
    "\<not> loading (store (snd (fetchProject f (d, Inr p) r))) \<and>
       error (store (snd (fetchProject f (d, Inr p) r))) = None"
    "\<not> loading (store (snd (fetchProject f (d, Inl e) r))) \<and>
       error (store (snd (fetchProject f (d, Inl e) r))) \<noteq> None"
    "\<not> loading (store (snd (fetchTimeline (d, Inr x) r))) \<and>
       error (store (snd (fetchTimeline (d, Inr x) r))) = None"
    "\<not> loading (store (snd (fetchTimeline (d, Inl e) r))) \<and>
       error (store (snd (fetchTimeline (d, Inl e) r))) \<noteq> None"
    "\<not> loading (store (snd (uploadMedia (d, Inr y) r))) \<and>
       error (store (snd (uploadMedia (d, Inr y) r))) = None"
    "\<not> loading (store (snd (uploadMedia (d, Inl e) r))) \<and>
       error (store (snd (uploadMedia (d, Inl e) r))) \<noteq> None"
    by (simp_all add: fetchProject_ok fetchProject_failed fetchTimeline_ok fetchTimeline_failed
        uploadMedia_ok uploadMedia_failed)
  have status:
    "error (store (snd (getProcessingStatus takeId (d, Inr z) r))) = error (store r)"
    "error (store (snd (getProcessingStatus takeId (d, Inl e) r))) = error (store r)"
    by (simp_all add: getProcessingStatus_ok getProcessingStatus_failed)
  have ok: "\<not> loading (store (snd (fetchDashboardStats backend retries r))) \<and>
      error (store (snd (fetchDashboardStats backend retries r))) = None"
    if "k \<le> nat retries" "\<forall>i<k. isl (snd (backend i))" "snd (backend k) = Inr data"
    using that by (simp add: fetchDashboardStats_succeeds_int [of k retries backend data r])
  have failed: "\<not> loading (store (snd (fetchDashboardStats backend retries r))) \<and>
      error (store (snd (fetchDashboardStats backend retries r))) \<noteq> None"
    if "\<forall>i\<le>nat retries. isl (snd (backend i))"
    using that by (simp add: fetchDashboardStats_exhausted_int [of retries backend r])
  show ?thesis using single status ok failed by blast
qed

theorem fetch_actions_resolve_witness:
  "error (store (snd (fetchDashboardStats (\<lambda>i. if i < 1 then (1, Inl NonError) else (1, Inr (8 :: nat))) 3
     (start 0 (initialState :: (nat, nat) ProjectState))))) = None \<and>
   \<not> loading (store (snd (fetchDashboardStats (\<lambda>i. (1, Inl NonError) :: nat reply) 1
     (start 0 (initialState :: (nat, nat) ProjectState))))) \<and>
   error (store (snd (fetchDashboardStats (\<lambda>i. (1, Inl NonError) :: nat reply) 1
     (start 0 (initialState :: (nat, nat) ProjectState))))) \<noteq> None \<and>
   error (store (snd (fetchProject id (1, Inl NonError)
     (start 0 (initialState :: (nat, nat) ProjectState))))) \<noteq> None"
proof -
  let ?r0 = "start 0 (initialState :: (nat, nat) ProjectState)"
  let ?b1 = "\<lambda>i::nat. if i < 1 then (1, Inl NonError) else (1, Inr (8 :: nat)) :: nat reply"
  let ?b2 = "\<lambda>i::nat. (1, Inl NonError) :: nat reply"
  let ?p = "\<lparr> p_id = 1, p_name = ''Dune'', p_description = None, p_created_at = ''2024-01-01'' \<rparr>"
  have h1: "(1::nat) \<le> nat 3 \<and> (\<forall>i<1. isl (snd (?b1 i))) \<and> snd (?b1 1) = Inr 8" by simp
  have h2: "\<forall>i\<le>nat 1. isl (snd (?b2 i))" by simp
  note w1 = fetch_actions_resolve [of id 1 ?p ?r0 NonError "0::nat" "0::nat" 1 3 ?b1 8 7 "0::nat"]
  note w2 = fetch_actions_resolve [of id 1 ?p ?r0 NonError "0::nat" "0::nat" 0 1 ?b2 0 7 "0::nat"]
  have a: "error (store (snd (fetchDashboardStats ?b1 3 ?r0))) = None"
    using w1 h1 by blast
  have b: "\<not> loading (store (snd (fetchDashboardStats ?b2 1 ?r0))) \<and>
      error (store (snd (fetchDashboardStats ?b2 1 ?r0))) \<noteq> None"
    using w2 h2 by blast
  have c: "error (store (snd (fetchProject id (1, Inl NonError) ?r0))) \<noteq> None"
    using w2 by blast
  show ?thesis using a b c by blast
qed







subsection \<open>What a failure leaves in the store\<close>

text \<open>
  C6. When \<^verbatim>\<open>fetchProject\<close> fails, the store afterwards is the store before with only
  \<open>error\<close> and \<open>loading\<close> written: \<open>projectId\<close>, \<open>projectName\<close>, \<open>description\<close>,
  \<open>shootDate\<close>, \<open>cameras\<close>, \<open>totalFootage\<close>, \<open>dashboardStats\<close>, \<open>timeline\<close> and the rest
  keep their values. The same holds for every failing action: \<^verbatim>\<open>fetchTimeline\<close>,
  \<^verbatim>\<open>uploadMedia\<close> and \<^verbatim>\<open>fetchDashboardStats\<close> end in the store before with \<open>error\<close> set
  and \<open>loading\<close> false, \<^verbatim>\<open>getProcessingStatus\<close> ends in the store before, and every store
  that is visible on the way differs from the store before in \<open>loading\<close> and \<open>error\<close>
  only.
\<close>

theorem failing_actions_keep_cache:
  "store (snd (fetchProject f (d, Inl e) r)) =
     (store r)\<lparr> error := Some (err_message e), loading := False \<rparr> \<and>
   projectId (store (snd (fetchProject f (d, Inl e) r))) = projectId (store r) \<and>
   projectName (store (snd (fetchProject f (d, Inl e) r))) = projectName (store r) \<and>
   description (store (snd (fetchProject f (d, Inl e) r))) = description (store r) \<and>
   shootDate (store (snd (fetchProject f (d, Inl e) r))) = shootDate (store r) \<and>
   cameras (store (snd (fetchProject f (d, Inl e) r))) = cameras (store r) \<and>
   totalFootage (store (snd (fetchProject f (d, Inl e) r))) = totalFootage (store r) \<and>
   dashboardStats (store (snd (fetchProject f (d, Inl e) r))) = dashboardStats (store r) \<and>
   timeline (store (snd (fetchProject f (d, Inl e) r))) = timeline (store r) \<and>
   map snd (since r (snd (fetchProject f (d, Inl e) r))) =
     [in_flight (store r), in_flight (store r),
      (store r)\<lparr> error := Some (err_message e), loading := False \<rparr>] \<and>
   store (snd (fetchTimeline (d, Inl e) r)) =
     (store r)\<lparr> error := Some (err_message e), loading := False \<rparr> \<and>
   map snd (since r (snd (fetchTimeline (d, Inl e) r))) =
     [in_flight (store r), in_flight (store r),
      (store r)\<lparr> error := Some (err_message e), loading := False \<rparr>] \<and>
   store (snd (uploadMedia (d, Inl e) r)) =
     (store r)\<lparr> error := Some (err_message e), loading := False \<rparr> \<and>
   map snd (since r (snd (uploadMedia (d, Inl e) r))) =
     [in_flight (store r), in_flight (store r),
      (store r)\<lparr> error := Some (err_message e), loading := False \<rparr>] \<and>
   store (snd (getProcessingStatus takeId (d, Inl e) r)) = store r \<and>
   map snd (since r (snd (getProcessingStatus takeId (d, Inl e) r))) = [store r, store r] \<and>
   ((\<forall>i\<le>nat retries. isl (snd (backend i))) \<longrightarrow>
      store (snd (fetchDashboardStats backend retries r)) =
        (store r)\<lparr> error := Some exhausted_message, loading := False \<rparr> \<and>
      set (map snd (since r (snd (fetchDashboardStats backend retries r)))) =
        {in_flight (store r), (store r)\<lparr> error := Some exhausted_message, loading := False \<rparr>})"
proof -
  have dash: "store (snd (fetchDashboardStats backend retries r)) =
        (store r)\<lparr> error := Some exhausted_message, loading := False \<rparr> \<and>
      set (map snd (since r (snd (fetchDashboardStats backend retries r)))) =
        {in_flight (store r), (store r)\<lparr> error := Some exhausted_message, loading := False \<rparr>}"
    if "\<forall>i\<le>nat retries. isl (snd (backend i))"
  proof -
    have rounds: "set (map snd (concat (replicate n (retry_round (store r))))) \<subseteq> {in_flight (store r)}"
      for n by (induction n) (simp_all add: retry_round_def)
    show ?thesis
      using that rounds [of "nat retries"]
      by (auto simp: fetchDashboardStats_exhausted_int [of retries backend r] since_def)
  qed
  show ?thesis
    using dash
    by (simp add: fetchProject_failed fetchTimeline_failed uploadMedia_failed
        getProcessingStatus_failed since_def)
qed

theorem failing_actions_keep_cache_witness:
  "store (snd (fetchDashboardStats (\<lambda>i. (1, Inl NonError) :: nat reply) 1
     (start 0 ((initialState :: (nat, nat) ProjectState)\<lparr> projectName := ''Dune'' \<rparr>)))) =
     initialState\<lparr> projectName := ''Dune'', error := Some exhausted_message \<rparr> \<and>
   store (snd (fetchProject id (1, Inl (Error ''offline''))
     (start 0 ((initialState :: (nat, nat) ProjectState)\<lparr> projectName := ''Dune'' \<rparr>)))) =
     initialState\<lparr> projectName := ''Dune'', error := Some ''offline'' \<rparr>"
proof -
  let ?r0 = "start 0 ((initialState :: (nat, nat) ProjectState)\<lparr> projectName := ''Dune'' \<rparr>)"
  let ?b = "\<lambda>i::nat. (1, Inl NonError) :: nat reply"
  have h: "\<forall>i\<le>nat 1. isl (snd (?b i))" by simp
  note w = failing_actions_keep_cache [of id 1 "Error ''offline''" ?r0 7 1 ?b]
  have a: "store (snd (fetchDashboardStats ?b 1 ?r0)) =
      (store ?r0)\<lparr> error := Some exhausted_message, loading := False \<rparr>"
    using w h by blast
  have b: "store (snd (fetchProject id (1, Inl (Error ''offline'')) ?r0)) =
      (store ?r0)\<lparr> error := Some (err_message (Error ''offline'')), loading := False \<rparr>"
    using w by blast
  show ?thesis unfolding a b by (simp add: start_def initialState_def err_message_def)
qed

subsection \<open>The sync state\<close>




section \<open>Properties of the take views\<close>

subsection \<open>Shared lemmas\<close>

lemma map_of_push:
  "map_of (push c t cs) k =
     (if k = c then map_option (\<lambda>items. items @ [t]) (map_of cs k) else map_of cs k)"
  by (cases "map_of cs c") (simp_all add: push_def map_of_map_entry)

lemma map_of_push_if:
  "map_of (if b then push c t cs else cs) k =
     map_option (\<lambda>items. if b \<and> k = c then items @ [t] else items) (map_of cs k)"
  by (cases "map_of cs k") (auto simp: map_of_push)

lemma nested_if: "(if a then (if b then x else y) else y) = (if a \<and> b then x else y)"
  by simp

lemma category_cases:
  obtains "c = ''Hesitation & Pauses''" | "c = ''Laughter & Humor''"
  | "c = ''Analytical & Technical''" | "c = ''Emotional Peaks''" | "c = ''Standard Dialogue''"
  | "c \<noteq> ''Hesitation & Pauses''" "c \<noteq> ''Laughter & Humor''" "c \<noteq> ''Analytical & Technical''"
    "c \<noteq> ''Emotional Peaks''" "c \<noteq> ''Standard Dialogue''"
  by blast

text \<open>The five statements of the loop body, read at one key.\<close>

lemma map_of_categorize_take_raw:
  "map_of (categorize_take t cs) c =
     map_option
       (\<lambda>items.
          if \<not> laughter_of t \<and> pause_of t \<le> 1.0 \<and>
             (emotion_of t = ''neutral'' \<or> emotion_of t = ''unknown'' \<or> emotion_of t = ''analytical'') \<and>
             emotion_of t \<noteq> ''analytical'' \<and> c = ''Standard Dialogue''
          then items @ [t] else items)
     (map_option
       (\<lambda>items.
          if (emotion_of t \<noteq> ''neutral'' \<and> emotion_of t \<noteq> ''unknown'' \<and> emotion_of t \<noteq> ''analytical'') \<and>
             c = ''Emotional Peaks''
          then items @ [t] else items)
     (map_option
       (\<lambda>items. if emotion_of t = ''analytical'' \<and> c = ''Analytical & Technical''
                 then items @ [t] else items)
     (map_option
       (\<lambda>items. if laughter_of t \<and> c = ''Laughter & Humor'' then items @ [t] else items)
     (map_option
       (\<lambda>items. if pause_of t > 1.0 \<and> c = ''Hesitation & Pauses'' then items @ [t] else items)
       (map_of cs c)))))"
  unfolding categorize_take_def Let_def nested_if map_of_push_if conj_assoc ..

lemma map_of_categorize_take:
  "map_of (categorize_take t cs) c =
     map_option
       (\<lambda>items. if in_category c (pause_of t) (laughter_of t) (emotion_of t)
                 then items @ [t] else items)
       (map_of cs c)"
proof (cases c rule: category_cases)
  case 1
  then show ?thesis
    by (cases "map_of cs c") (simp_all add: map_of_categorize_take_raw in_category_def)
next
  case 2
  then show ?thesis
    by (cases "map_of cs c") (simp_all add: map_of_categorize_take_raw in_category_def)
next
  case 3
  then show ?thesis
    by (cases "map_of cs c") (simp_all add: map_of_categorize_take_raw in_category_def)
next
  case 4
  then show ?thesis
    by (cases "map_of cs c") (simp_all add: map_of_categorize_take_raw in_category_def)
next
  case 5
  then show ?thesis
    by (cases "map_of cs c") (auto simp: map_of_categorize_take_raw in_category_def)
next
  case 6
  then show ?thesis
    by (cases "map_of cs c") (simp_all add: map_of_categorize_take_raw in_category_def)
qed

lemma map_of_fold_categorize:
  "map_of (fold categorize_take ts cs) c =
     map_option
       (\<lambda>items. items @ filter (\<lambda>t. in_category c (pause_of t) (laughter_of t) (emotion_of t)) ts)
       (map_of cs c)"
proof (induction ts arbitrary: cs)
  case Nil
  show ?case by (cases "map_of cs c") simp_all
next
  case (Cons t ts)
  show ?case
    by (cases "map_of cs c") (simp_all add: Cons.IH map_of_categorize_take)
qed






subsection \<open>The categorizer\<close>




subsection \<open>The categorizer on metadata of type \<^verbatim>\<open>any\<close>\<close>

lemma map_of_push_any:
  "map_of (push_any c t cs) k =
     (if k = c then map_option (\<lambda>items. items @ [t]) (map_of cs k) else map_of cs k)"
  by (cases "map_of cs c") (simp_all add: push_any_def map_of_map_entry)

lemma map_of_push_any_if:
  "map_of (if b then push_any c t cs else cs) k =
     map_option (\<lambda>items. if b \<and> k = c then items @ [t] else items) (map_of cs k)"
  by (cases "map_of cs k") (auto simp: map_of_push_any)

lemma map_of_categorize_any_raw:
  "map_of (categorize_any toNumber t cs) c =
     map_option
       (\<lambda>items.
          if \<not> truthy (laughter_any t) \<and> at_most (to_number toNumber (pause_any t)) 1.0 \<and>
             (emotion_any t = JString ''neutral'' \<or> emotion_any t = JString ''unknown'' \<or>
              emotion_any t = JString ''analytical'') \<and>
             emotion_any t \<noteq> JString ''analytical'' \<and> c = ''Standard Dialogue''
          then items @ [t] else items)
     (map_option
       (\<lambda>items.
          if (emotion_any t \<noteq> JString ''neutral'' \<and> emotion_any t \<noteq> JString ''unknown'' \<and>
              emotion_any t \<noteq> JString ''analytical'') \<and>
             c = ''Emotional Peaks''
          then items @ [t] else items)
     (map_option
       (\<lambda>items. if emotion_any t = JString ''analytical'' \<and> c = ''Analytical & Technical''
                 then items @ [t] else items)
     (map_option
       (\<lambda>items. if truthy (laughter_any t) \<and> c = ''Laughter & Humor''
                 then items @ [t] else items)
     (map_option
       (\<lambda>items. if greater_than (to_number toNumber (pause_any t)) 1.0 \<and>
                    c = ''Hesitation & Pauses''
                 then items @ [t] else items)
       (map_of cs c)))))"
  unfolding categorize_any_def Let_def nested_if map_of_push_any_if conj_assoc ..

lemmas gallery_conditions =
  gallery_condition_def hesitates_def laughs_def analytical_def emotional_peak_def
  standard_dialogue_def pause_number_def

lemma map_of_categorize_any:
  "map_of (categorize_any toNumber t cs) c =
     map_option (\<lambda>items. if gallery_condition toNumber c t then items @ [t] else items)
       (map_of cs c)"
proof (cases c rule: category_cases)
  case 1
  then show ?thesis
    by (cases "map_of cs c") (simp_all add: map_of_categorize_any_raw gallery_conditions)
next
  case 2
  then show ?thesis
    by (cases "map_of cs c") (simp_all add: map_of_categorize_any_raw gallery_conditions)
next
  case 3
  then show ?thesis
    by (cases "map_of cs c") (simp_all add: map_of_categorize_any_raw gallery_conditions)
next
  case 4
  then show ?thesis
    by (cases "map_of cs c") (simp_all add: map_of_categorize_any_raw gallery_conditions)
next
  case 5
  then show ?thesis
    by (cases "map_of cs c") (auto simp: map_of_categorize_any_raw gallery_conditions)
next
  case 6
  then show ?thesis
    by (cases "map_of cs c") (simp_all add: map_of_categorize_any_raw gallery_conditions)
qed

lemma map_of_fold_categorize_any:
  "map_of (fold (categorize_any toNumber) ts cs) c =
     map_option (\<lambda>items. items @ filter (gallery_condition toNumber c) ts) (map_of cs c)"
proof (induction ts arbitrary: cs)
  case Nil
  show ?case by (cases "map_of cs c") simp_all
next
  case (Cons t ts)
  show ?case
    by (cases "map_of cs c") (simp_all add: Cons.IH map_of_categorize_any)
qed

lemma map_fst_push_any: "map fst (push_any c t cs) = map fst cs"
  by (induction cs) (auto simp: push_any_def)

lemma map_fst_categorize_any: "map fst (categorize_any toNumber t cs) = map fst cs"
  by (simp add: categorize_any_def Let_def map_fst_push_any)

lemma map_fst_fold_categorize_any: "map fst (fold (categorize_any toNumber) ts cs) = map fst cs"
  by (induction ts arbitrary: cs) (simp_all add: map_fst_categorize_any)

lemma gallery_bucket:
  assumes "map_of empty_gallery_categories c = Some []"
  shows "map_of (categorizedResults_any toNumber ts) c =
           Some (filter (gallery_condition toNumber c) ts)"
  by (simp add: categorizedResults_any_def map_of_fold_categorize_any assms)

lemma gallery_condition_names:
  "gallery_condition toNumber ''Hesitation & Pauses'' = hesitates toNumber"
  "gallery_condition toNumber ''Laughter & Humor'' = laughs"
  "gallery_condition toNumber ''Analytical & Technical'' = analytical"
  "gallery_condition toNumber ''Emotional Peaks'' = emotional_peak"
  "gallery_condition toNumber ''Standard Dialogue'' = standard_dialogue toNumber"
  by (simp_all add: fun_eq_iff gallery_condition_def)

text \<open>A pause that converts to a number is above 1.0 or at most 1.0.\<close>

lemma number_compares:
  "x \<noteq> NaN \<Longrightarrow> greater_than x c \<or> at_most x c"
  by (cases x) (auto simp: greater_than_def at_most_def)

lemma some_gallery_condition:
  assumes "pause_number toNumber t \<noteq> NaN"
  shows "hesitates toNumber t \<or> laughs t \<or> analytical t \<or> emotional_peak t \<or>
         standard_dialogue toNumber t"
  using number_compares [OF assms, of "1.0"]
  by (auto simp: hesitates_def laughs_def analytical_def emotional_peak_def standard_dialogue_def)

text \<open>On a take with the types of the data model the two readings agree.\<close>

lemma gallery_of_behaviors:
  "behaviors_any (gallery_of t) =
     \<lparr> g_hesitation_duration =
         map_option (\<lambda>v. JNumber (Finite v)) (hesitation_duration (behaviors_of t)),
       g_laughter_detected = map_option JBoolean (laughter_detected (behaviors_of t)) \<rparr>"
  by (auto simp: behaviors_any_def behaviors_of_def gallery_of_def gallery_metadata_of_def
      gallery_audio_of_def gallery_markers_of_def or_object_def empty_gallery_metadata_def
      empty_gallery_audio_def empty_gallery_markers_def empty_metadata_def empty_audio_def
      empty_markers_def Let_def split: option.splits)

lemma gallery_of_reads:
  "pause_number toNumber (gallery_of t) = Finite (pause_of t)"
  "laughs (gallery_of t) = laughter_of t"
  "emotion_any (gallery_of t) = JString (emotion_of t)"
proof -
  show "pause_number toNumber (gallery_of t) = Finite (pause_of t)"
    by (cases "hesitation_duration (behaviors_of t)")
      (simp_all add: pause_number_def pause_any_def pause_of_def gallery_of_behaviors
        or_value_def or_number_def truthy_def to_number_def)
  show "laughs (gallery_of t) = laughter_of t"
    by (cases "laughter_detected (behaviors_of t)")
      (simp_all add: laughs_def laughter_any_def laughter_of_def gallery_of_behaviors
        or_value_def or_boolean_def truthy_def)
  show "emotion_any (gallery_of t) = JString (emotion_of t)"
    by (auto simp: emotion_any_def emotion_of_def gallery_of_def gallery_metadata_of_def
        or_object_def or_value_def or_string_def truthy_def empty_gallery_metadata_def
        empty_metadata_def Let_def split: option.splits)
qed

lemma gallery_condition_typed:
  "gallery_condition toNumber c (gallery_of t) =
     in_category c (pause_of t) (laughter_of t) (emotion_of t)"
  by (simp add: gallery_condition_def hesitates_def analytical_def emotional_peak_def
      standard_dialogue_def gallery_of_reads gallery_of_reads(2) [unfolded laughs_def]
      in_category_def greater_than_def at_most_def)

lemma categorizedResults_any_typed:
  "map_of (categorizedResults_any toNumber (map gallery_of ts)) c =
     map_option (map gallery_of) (map_of (categorizedResults ts) c)"
proof -
  have empty: "map_of empty_gallery_categories c = map_option (map gallery_of) (map_of empty_categories c)"
    by (simp add: empty_gallery_categories_def empty_categories_def)
  have "filter (gallery_condition toNumber c) (map gallery_of ts) =
      map gallery_of (filter (\<lambda>t. in_category c (pause_of t) (laughter_of t) (emotion_of t)) ts)"
    by (simp add: filter_map comp_def gallery_condition_typed)
  then show ?thesis
    by (cases "map_of empty_categories c")
      (simp_all add: categorizedResults_any_def categorizedResults_def
        map_of_fold_categorize_any map_of_fold_categorize empty)
qed

text \<open>
  C10, as stated, fails: the gallery reads \<^verbatim>\<open>hesitation_duration\<close> at the type
  \<^verbatim>\<open>any\<close>, and a pause that does not convert to a number is neither above 1.0 nor at
  most 1.0. A take whose pause is the string \<^verbatim>\<open>"n/a"\<close>, with no laughter and no emotion,
  is left out of every one of the five lists.
\<close>

theorem categorizedResults_any_non_numeric_pause_counterexample:
  "categorizedResults_any not_a_numeral
     [\<lparr> g_id = 1, g_file_name = ''a.mp4'', g_number = 1,
        g_ai_metadata = Some
          \<lparr> g_audio = Some
              \<lparr> g_behavioral_markers = Some
                  \<lparr> g_hesitation_duration = Some (JString ''n/a''),
                    g_laughter_detected = None \<rparr> \<rparr>,
            g_emotion = None \<rparr>,
        g_confidence_score = None \<rparr>] =
     [(''Hesitation & Pauses'', []),
      (''Laughter & Humor'', []),
      (''Emotional Peaks'', []),
      (''Analytical & Technical'', []),
      (''Standard Dialogue'', [])]"
  by (simp add: categorizedResults_any_def categorize_any_def empty_gallery_categories_def
      pause_any_def laughter_any_def emotion_any_def behaviors_any_def or_object_def
      or_value_def truthy_def to_number_def not_a_numeral_def greater_than_def at_most_def)

text \<open>
  C10, amended. The result has the five categories, and the list of each is exactly the
  takes of the input that satisfy its condition, in the order of the input: Hesitation
  and Pauses, a pause above 1.0; Laughter and Humor, laughter; Analytical and Technical,
  the emotion analytical; Emotional Peaks, an emotion that is none of neutral, unknown
  and analytical; Standard Dialogue, no laughter, a pause of at most 1.0 and the emotion
  neutral or unknown; all with the defaults of the code. Every take whose pause converts
  to a number satisfies at least one of the five conditions, so it is in the list of at
  least one category. A take whose fields have the types of the data model is such a
  take: its pause reads as the number, its laughter as the flag and its emotion as the
  string that the typed categorizer reads.
\<close>

theorem gallery_takes_are_categorized:
  assumes "t \<in> set ts"
    and "pause_number toNumber t \<noteq> NaN"
  shows "map fst (categorizedResults_any toNumber ts) =
           [''Hesitation & Pauses'', ''Laughter & Humor'', ''Emotional Peaks'',
            ''Analytical & Technical'', ''Standard Dialogue''] \<and>
         map_of (categorizedResults_any toNumber ts) ''Hesitation & Pauses'' =
           Some (filter (hesitates toNumber) ts) \<and>
         map_of (categorizedResults_any toNumber ts) ''Laughter & Humor'' =
           Some (filter laughs ts) \<and>
         map_of (categorizedResults_any toNumber ts) ''Analytical & Technical'' =
           Some (filter analytical ts) \<and>
         map_of (categorizedResults_any toNumber ts) ''Emotional Peaks'' =
           Some (filter emotional_peak ts) \<and>
         map_of (categorizedResults_any toNumber ts) ''Standard Dialogue'' =
           Some (filter (standard_dialogue toNumber) ts) \<and>
         (hesitates toNumber t \<or> laughs t \<or> analytical t \<or> emotional_peak t \<or>
          standard_dialogue toNumber t) \<and>
         (\<exists>c items. c \<in> set (map fst (categorizedResults_any toNumber ts)) \<and>
            map_of (categorizedResults_any toNumber ts) c = Some items \<and> t \<in> set items) \<and>
         pause_number toNumber (gallery_of u) = Finite (pause_of u) \<and>
         laughs (gallery_of u) = laughter_of u \<and>
         emotion_any (gallery_of u) = JString (emotion_of u)"
proof -
  have keys: "map fst (categorizedResults_any toNumber ts) =
           [''Hesitation & Pauses'', ''Laughter & Humor'', ''Emotional Peaks'',
            ''Analytical & Technical'', ''Standard Dialogue'']"
    by (simp add: categorizedResults_any_def map_fst_fold_categorize_any)
      (simp add: empty_gallery_categories_def)
  have 1: "map_of (categorizedResults_any toNumber ts) ''Hesitation & Pauses'' =
           Some (filter (hesitates toNumber) ts)"
    by (subst gallery_bucket) (simp_all add: empty_gallery_categories_def gallery_condition_names)
  have 2: "map_of (categorizedResults_any toNumber ts) ''Laughter & Humor'' =
           Some (filter laughs ts)"
    by (subst gallery_bucket) (simp_all add: empty_gallery_categories_def gallery_condition_names)
  have 3: "map_of (categorizedResults_any toNumber ts) ''Analytical & Technical'' =
           Some (filter analytical ts)"
    by (subst gallery_bucket) (simp_all add: empty_gallery_categories_def gallery_condition_names)
  have 4: "map_of (categorizedResults_any toNumber ts) ''Emotional Peaks'' =
           Some (filter emotional_peak ts)"
    by (subst gallery_bucket) (simp_all add: empty_gallery_categories_def gallery_condition_names)
  have 5: "map_of (categorizedResults_any toNumber ts) ''Standard Dialogue'' =
           Some (filter (standard_dialogue toNumber) ts)"
    by (subst gallery_bucket) (simp_all add: empty_gallery_categories_def gallery_condition_names)
  have some: "hesitates toNumber t \<or> laughs t \<or> analytical t \<or> emotional_peak t \<or>
      standard_dialogue toNumber t"
    using assms(2) by (rule some_gallery_condition)
  have listed: "\<exists>c items. c \<in> set (map fst (categorizedResults_any toNumber ts)) \<and>
      map_of (categorizedResults_any toNumber ts) c = Some items \<and> t \<in> set items"
  proof -
    consider "hesitates toNumber t" | "laughs t" | "analytical t" | "emotional_peak t"
      | "standard_dialogue toNumber t"
      using some by blast
    then show ?thesis
    proof cases
      case 1
      then have "t \<in> set (filter (hesitates toNumber) ts)" using assms(1) by simp
      moreover have "''Hesitation & Pauses'' \<in> set (map fst (categorizedResults_any toNumber ts))"
        unfolding keys by simp
      ultimately show ?thesis using \<open>map_of _ ''Hesitation & Pauses'' = _\<close> by blast
    next
      case 2
      then have "t \<in> set (filter laughs ts)" using assms(1) by simp
      moreover have "''Laughter & Humor'' \<in> set (map fst (categorizedResults_any toNumber ts))"
        unfolding keys by simp
      ultimately show ?thesis using \<open>map_of _ ''Laughter & Humor'' = _\<close> by blast
    next
      case 3
      then have "t \<in> set (filter analytical ts)" using assms(1) by simp
      moreover have "''Analytical & Technical'' \<in> set (map fst (categorizedResults_any toNumber ts))"
        unfolding keys by simp
      ultimately show ?thesis using \<open>map_of _ ''Analytical & Technical'' = _\<close> by blast
    next
      case 4
      then have "t \<in> set (filter emotional_peak ts)" using assms(1) by simp
      moreover have "''Emotional Peaks'' \<in> set (map fst (categorizedResults_any toNumber ts))"
        unfolding keys by simp
      ultimately show ?thesis using \<open>map_of _ ''Emotional Peaks'' = _\<close> by blast
    next
      case 5
      then have "t \<in> set (filter (standard_dialogue toNumber) ts)" using assms(1) by simp
      moreover have "''Standard Dialogue'' \<in> set (map fst (categorizedResults_any toNumber ts))"
        unfolding keys by simp
      ultimately show ?thesis using \<open>map_of _ ''Standard Dialogue'' = _\<close> by blast
    qed
  qed
  show ?thesis
    using keys 1 2 3 4 5 some listed gallery_of_reads(1) [of toNumber u]
      gallery_of_reads(2) [of u] gallery_of_reads(3) [of u]
    by (intro conjI)
qed

text \<open>
  Three takes: a pause of 1.5 with a neutral emotion, laughter with the emotion happy,
  and no metadata at all. The third is under standard dialogue only.
\<close>

theorem gallery_takes_are_categorized_witness:
  "map_of (categorizedResults_any not_a_numeral
     [\<lparr> g_id = 1, g_file_name = ''a.mp4'', g_number = 1,
        g_ai_metadata = Some
          \<lparr> g_audio = Some
              \<lparr> g_behavioral_markers = Some
                  \<lparr> g_hesitation_duration = Some (JNumber (Finite 1.5)),
                    g_laughter_detected = Some (JBoolean False) \<rparr> \<rparr>,
            g_emotion = Some (JString ''neutral'') \<rparr>,
        g_confidence_score = None \<rparr>,
      \<lparr> g_id = 2, g_file_name = ''b.mp4'', g_number = 2,
        g_ai_metadata = Some
          \<lparr> g_audio = Some
              \<lparr> g_behavioral_markers = Some
                  \<lparr> g_hesitation_duration = None,
                    g_laughter_detected = Some (JBoolean True) \<rparr> \<rparr>,
            g_emotion = Some (JString ''happy'') \<rparr>,
        g_confidence_score = None \<rparr>,
      \<lparr> g_id = 3, g_file_name = ''c.mp4'', g_number = 3, g_ai_metadata = None,
        g_confidence_score = None \<rparr>]) ''Hesitation & Pauses'' =
   Some [\<lparr> g_id = 1, g_file_name = ''a.mp4'', g_number = 1,
        g_ai_metadata = Some
          \<lparr> g_audio = Some
              \<lparr> g_behavioral_markers = Some
                  \<lparr> g_hesitation_duration = Some (JNumber (Finite 1.5)),
                    g_laughter_detected = Some (JBoolean False) \<rparr> \<rparr>,
            g_emotion = Some (JString ''neutral'') \<rparr>,
        g_confidence_score = None \<rparr>] \<and>
   map_of (categorizedResults_any not_a_numeral
     [\<lparr> g_id = 1, g_file_name = ''a.mp4'', g_number = 1,
        g_ai_metadata = Some
          \<lparr> g_audio = Some
              \<lparr> g_behavioral_markers = Some
                  \<lparr> g_hesitation_duration = Some (JNumber (Finite 1.5)),
                    g_laughter_detected = Some (JBoolean False) \<rparr> \<rparr>,
            g_emotion = Some (JString ''neutral'') \<rparr>,
        g_confidence_score = None \<rparr>,
      \<lparr> g_id = 2, g_file_name = ''b.mp4'', g_number = 2,
        g_ai_metadata = Some
          \<lparr> g_audio = Some
              \<lparr> g_behavioral_markers = Some
                  \<lparr> g_hesitation_duration = None,
                    g_laughter_detected = Some (JBoolean True) \<rparr> \<rparr>,
            g_emotion = Some (JString ''happy'') \<rparr>,
        g_confidence_score = None \<rparr>,
      \<lparr> g_id = 3, g_file_name = ''c.mp4'', g_number = 3, g_ai_metadata = None,
        g_confidence_score = None \<rparr>]) ''Laughter & Humor'' =
   Some [\<lparr> g_id = 2, g_file_name = ''b.mp4'', g_number = 2,
        g_ai_metadata = Some
          \<lparr> g_audio = Some
              \<lparr> g_behavioral_markers = Some
                  \<lparr> g_hesitation_duration = None,
                    g_laughter_detected = Some (JBoolean True) \<rparr> \<rparr>,
            g_emotion = Some (JString ''happy'') \<rparr>,
        g_confidence_score = None \<rparr>] \<and>
   map_of (categorizedResults_any not_a_numeral
     [\<lparr> g_id = 1, g_file_name = ''a.mp4'', g_number = 1,
        g_ai_metadata = Some
          \<lparr> g_audio = Some
              \<lparr> g_behavioral_markers = Some
                  \<lparr> g_hesitation_duration = Some (JNumber (Finite 1.5)),
                    g_laughter_detected = Some (JBoolean False) \<rparr> \<rparr>,
            g_emotion = Some (JString ''neutral'') \<rparr>,
        g_confidence_score = None \<rparr>,
      \<lparr> g_id = 2, g_file_name = ''b.mp4'', g_number = 2,
        g_ai_metadata = Some
          \<lparr> g_audio = Some
              \<lparr> g_behavioral_markers = Some
                  \<lparr> g_hesitation_duration = None,
                    g_laughter_detected = Some (JBoolean True) \<rparr> \<rparr>,
            g_emotion = Some (JString ''happy'') \<rparr>,
        g_confidence_score = None \<rparr>,
      \<lparr> g_id = 3, g_file_name = ''c.mp4'', g_number = 3, g_ai_metadata = None,
        g_confidence_score = None \<rparr>]) ''Analytical & Technical'' =
   Some [] \<and>
   map_of (categorizedResults_any not_a_numeral
     [\<lparr> g_id = 1, g_file_name = ''a.mp4'', g_number = 1,
        g_ai_metadata = Some
          \<lparr> g_audio = Some
              \<lparr> g_behavioral_markers = Some
                  \<lparr> g_hesitation_duration = Some (JNumber (Finite 1.5)),
                    g_laughter_detected = Some (JBoolean False) \<rparr> \<rparr>,
            g_emotion = Some (JString ''neutral'') \<rparr>,
        g_confidence_score = None \<rparr>,
      \<lparr> g_id = 2, g_file_name = ''b.mp4'', g_number = 2,
        g_ai_metadata = Some
          \<lparr> g_audio = Some
              \<lparr> g_behavioral_markers = Some
                  \<lparr> g_hesitation_duration = None,
                    g_laughter_detected = Some (JBoolean True) \<rparr> \<rparr>,
            g_emotion = Some (JString ''happy'') \<rparr>,
        g_confidence_score = None \<rparr>,
      \<lparr> g_id = 3, g_file_name = ''c.mp4'', g_number = 3, g_ai_metadata = None,
        g_confidence_score = None \<rparr>]) ''Emotional Peaks'' =
   Some [\<lparr> g_id = 2, g_file_name = ''b.mp4'', g_number = 2,
        g_ai_metadata = Some
          \<lparr> g_audio = Some
              \<lparr> g_behavioral_markers = Some
                  \<lparr> g_hesitation_duration = None,
                    g_laughter_detected = Some (JBoolean True) \<rparr> \<rparr>,
            g_emotion = Some (JString ''happy'') \<rparr>,
        g_confidence_score = None \<rparr>] \<and>
   map_of (categorizedResults_any not_a_numeral
     [\<lparr> g_id = 1, g_file_name = ''a.mp4'', g_number = 1,
        g_ai_metadata = Some
          \<lparr> g_audio = Some
              \<lparr> g_behavioral_markers = Some
                  \<lparr> g_hesitation_duration = Some (JNumber (Finite 1.5)),
                    g_laughter_detected = Some (JBoolean False) \<rparr> \<rparr>,
            g_emotion = Some (JString ''neutral'') \<rparr>,
        g_confidence_score = None \<rparr>,
      \<lparr> g_id = 2, g_file_name = ''b.mp4'', g_number = 2,
        g_ai_metadata = Some
          \<lparr> g_audio = Some
              \<lparr> g_behavioral_markers = Some
                  \<lparr> g_hesitation_duration = None,
                    g_laughter_detected = Some (JBoolean True) \<rparr> \<rparr>,
            g_emotion = Some (JString ''happy'') \<rparr>,
        g_confidence_score = None \<rparr>,
      \<lparr> g_id = 3, g_file_name = ''c.mp4'', g_number = 3, g_ai_metadata = None,
        g_confidence_score = None \<rparr>]) ''Standard Dialogue'' =
   Some [\<lparr> g_id = 3, g_file_name = ''c.mp4'', g_number = 3, g_ai_metadata = None,
        g_confidence_score = None \<rparr>]"
proof -
  let ?a = "\<lparr> g_id = 1, g_file_name = ''a.mp4'', g_number = 1,
        g_ai_metadata = Some
          \<lparr> g_audio = Some
              \<lparr> g_behavioral_markers = Some
                  \<lparr> g_hesitation_duration = Some (JNumber (Finite 1.5)),
                    g_laughter_detected = Some (JBoolean False) \<rparr> \<rparr>,
            g_emotion = Some (JString ''neutral'') \<rparr>,
        g_confidence_score = None \<rparr>"
  let ?b = "\<lparr> g_id = 2, g_file_name = ''b.mp4'', g_number = 2,
        g_ai_metadata = Some
          \<lparr> g_audio = Some
              \<lparr> g_behavioral_markers = Some
                  \<lparr> g_hesitation_duration = None,
                    g_laughter_detected = Some (JBoolean True) \<rparr> \<rparr>,
            g_emotion = Some (JString ''happy'') \<rparr>,
        g_confidence_score = None \<rparr>"
  let ?c = "\<lparr> g_id = 3, g_file_name = ''c.mp4'', g_number = 3, g_ai_metadata = None,
        g_confidence_score = None \<rparr>"
  let ?u = "\<lparr> take_id = 3, file_name = ''c.mp4'', take_number = 3, take_duration = None,
       ai_metadata = None, confidence_score = None \<rparr>"
  have listed: "?c \<in> set [?a, ?b, ?c]" by simp
  have numeric: "pause_number not_a_numeral ?c \<noteq> NaN"
    by (simp add: pause_number_def pause_any_def behaviors_any_def or_object_def or_value_def
        to_number_def empty_gallery_metadata_def empty_gallery_audio_def
        empty_gallery_markers_def)
  note w = gallery_takes_are_categorized [of ?c "[?a, ?b, ?c]" not_a_numeral ?u, OF listed numeric]
  note hesitation = w [THEN conjunct2, THEN conjunct1]
  note laughter = w [THEN conjunct2, THEN conjunct2, THEN conjunct1]
  note analytic = w [THEN conjunct2, THEN conjunct2, THEN conjunct2, THEN conjunct1]
  note peaks = w [THEN conjunct2, THEN conjunct2, THEN conjunct2, THEN conjunct2, THEN conjunct1]
  note standard = w [THEN conjunct2, THEN conjunct2, THEN conjunct2, THEN conjunct2,
      THEN conjunct2, THEN conjunct1]
  show ?thesis
    unfolding hesitation laughter analytic peaks standard
    by (simp add: hesitates_def laughs_def analytical_def emotional_peak_def
        standard_dialogue_def pause_number_def pause_any_def laughter_any_def emotion_any_def
        behaviors_any_def or_object_def or_value_def truthy_def to_number_def greater_than_def
        at_most_def empty_gallery_metadata_def empty_gallery_audio_def
        empty_gallery_markers_def)
qed

subsection \<open>The selection after a refresh\<close>






end
